theory Spec2Isabelle
  imports Complex_Main
begin

section \<open>The six-stage chain of pipeline.ipynb\<close>

text \<open>
  The notebook chains six calls: fill-mask, text generation, sentiment analysis,
  summarization, question generation through an external process, and question
  answering. The models, the external process and the codec of the locale are not code of
  the notebook; they are the fields of an environment, and every theorem holds for every
  environment. What the
  notebook itself does (which value goes to which call, which element of a result is
  read, which exception is caught where) is what the definitions below embed.

  The \<^verbatim>\<open>print\<close> statements write progress text to the notebook's output and pass
  nothing on; they are left out.
\<close>

subsection \<open>Text\<close>

text \<open>
  A Python \<^verbatim>\<open>str\<close> is a sequence of Unicode code points; a code point is a natural
  number here. \<open>str\<close> turns a literal into that form.
\<close>

type_synonym pystr = "nat list"

definition str :: "string \<Rightarrow> pystr" where
  "str s = map of_char s"

text \<open>
  \<^verbatim>\<open>str.isspace\<close> on one code point: the characters Python counts as whitespace, which
  are the ones \<^verbatim>\<open>str.strip()\<close> removes when called without an argument.
\<close>

definition isspace :: "nat \<Rightarrow> bool" where
  "isspace c \<longleftrightarrow>
     (0x09 \<le> c \<and> c \<le> 0x0D) \<or> (0x1C \<le> c \<and> c \<le> 0x20) \<or> c = 0x85 \<or> c = 0xA0 \<or>
     c = 0x1680 \<or> (0x2000 \<le> c \<and> c \<le> 0x200A) \<or> c = 0x2028 \<or> c = 0x2029 \<or>
     c = 0x202F \<or> c = 0x205F \<or> c = 0x3000"

definition lstrip :: "pystr \<Rightarrow> pystr" where
  "lstrip s = dropWhile isspace s"

definition rstrip :: "pystr \<Rightarrow> pystr" where
  "rstrip s = rev (dropWhile isspace (rev s))"

definition strip :: "pystr \<Rightarrow> pystr" where
  "strip s = rstrip (lstrip s)"

subsection \<open>Exceptions\<close>

text \<open>
  The exception classes the two handlers of the notebook tell apart.
  \<^verbatim>\<open>CalledProcessError\<close> carries the exit status, the command, the captured output and
  the captured error output. \<^verbatim>\<open>UnicodeDecodeError\<close> is what decoding bytes that are no
  text of the codec raises. \<^verbatim>\<open>KeyboardInterrupt\<close> and \<^verbatim>\<open>SystemExit\<close> derive from
  \<^verbatim>\<open>BaseException\<close> only; every other class here derives from \<^verbatim>\<open>Exception\<close>.
  \<open>OtherException\<close> stands for any further class derived from \<^verbatim>\<open>Exception\<close> (and not
  from \<^verbatim>\<open>CalledProcessError\<close>), by name.
\<close>

datatype exn =
    CalledProcessError int "pystr list" pystr pystr
  | FileNotFoundError
  | UnicodeDecodeError
  | IndexError
  | KeyboardInterrupt
  | SystemExit
  | OtherException pystr

text \<open>\<^verbatim>\<open>except Exception\<close> matches:\<close>

fun is_Exception :: "exn \<Rightarrow> bool" where
  "is_Exception KeyboardInterrupt = False"
| "is_Exception SystemExit = False"
| "is_Exception _ = True"

text \<open>\<^verbatim>\<open>except subprocess.CalledProcessError\<close> matches:\<close>

fun is_CalledProcessError :: "exn \<Rightarrow> bool" where
  "is_CalledProcessError (CalledProcessError rc cmd out err) = True"
| "is_CalledProcessError _ = False"

subsection \<open>Results of the external calls\<close>

text \<open>
  Each pipeline returns dictionaries; the notebook reads the keys below and no other.
  A field \<open>k_x\<close> is the value under the key \<^verbatim>\<open>'x'\<close>.
\<close>

record fill_candidate =
  k_sequence :: pystr

record generation =
  k_generated_text :: pystr

record classification =
  k_label :: pystr
  k_score :: real

record summary =
  k_summary_text :: pystr

record extraction =
  k_answer :: pystr

text \<open>
  What a finished process leaves: its exit status and what it wrote to its standard output
  and to its standard error output. The operating system hands these over as bytes
  (\<open>string completed_process\<close>: a \<open>char\<close> is a byte); \<^verbatim>\<open>subprocess.CompletedProcess\<close>
  after \<^verbatim>\<open>text=True\<close> holds them as text (\<open>pystr completed_process\<close>).
\<close>

record 'a completed_process =
  returncode :: int
  stdout :: 'a
  stderr :: 'a

subsection \<open>The environment\<close>

text \<open>
  \<open>pipeline\<close> is \<^verbatim>\<open>transformers.pipeline(task, model=..., device=...)\<close>: loading may
  raise. The next four fields and \<open>qa_pipeline\<close> are the loaded models, called with the
  arguments the notebook gives them. \<open>run_process\<close> is the operating system running a
  command with a text on its standard input: it raises (the executable is missing, or the
  input cannot be encoded) or the process runs to its end and leaves bytes. \<open>decode\<close> is
  \<^verbatim>\<open>bytes.decode\<close> with the encoding of the locale, which \<^verbatim>\<open>text=True\<close> selects:
  \<open>None\<close> when the bytes are no text of that encoding.
\<close>

record env =
  pipeline :: "pystr \<Rightarrow> pystr \<Rightarrow> int option \<Rightarrow> exn option"
  mask_filler :: "pystr \<Rightarrow> nat \<Rightarrow> exn + fill_candidate list"
  text_generator :: "pystr \<Rightarrow> nat \<Rightarrow> nat \<Rightarrow> bool \<Rightarrow> exn + generation list"
  sentiment_analyzer :: "pystr \<Rightarrow> exn + classification list"
  summarizer :: "pystr \<Rightarrow> nat \<Rightarrow> nat \<Rightarrow> bool \<Rightarrow> exn + summary list"
  run_process :: "pystr list \<Rightarrow> pystr \<Rightarrow> exn + string completed_process"
  decode :: "string \<Rightarrow> pystr option"
  qa_pipeline :: "pystr \<Rightarrow> pystr \<Rightarrow> exn + extraction"

subsection \<open>Effects\<close>

text \<open>
  Every call that leaves the notebook is recorded, in order, with its arguments.
  \<open>Launch\<close> is the start of the external process with the text written to its standard
  input, \<open>Exit\<close> its end with its status.
\<close>

datatype event =
    Load pystr pystr
  | Call_mask_filler pystr nat
  | Call_text_generator pystr nat nat bool
  | Call_sentiment_analyzer pystr
  | Call_summarizer pystr nat nat bool
  | Launch "pystr list" pystr
  | Exit int
  | Call_qa_pipeline pystr pystr

text \<open>
  A statement takes the record of the calls so far and gives back a value or the
  exception it raised, with the record extended.
\<close>

type_synonym 'a action = "event list \<Rightarrow> (exn + 'a) \<times> event list"

definition return :: "'a \<Rightarrow> 'a action" where
  "return x tr = (Inr x, tr)"

text \<open>Sequencing: an exception of the first statement skips the rest.\<close>

definition andthen :: "'a action \<Rightarrow> ('a \<Rightarrow> 'b action) \<Rightarrow> 'b action" where
  "andthen m f tr =
     (case m tr of
        (Inl e, tr') \<Rightarrow> (Inl e, tr')
      | (Inr x, tr') \<Rightarrow> f x tr')"

text \<open>
  \<^verbatim>\<open>try: m  except C as e: h\<close>: the handler runs for an exception of class \<open>C\<close>; any
  other exception goes on to the caller.
\<close>

definition try_except :: "'a action \<Rightarrow> (exn \<Rightarrow> bool) \<Rightarrow> (exn \<Rightarrow> 'a action) \<Rightarrow> 'a action" where
  "try_except m C h tr =
     (case m tr of
        (Inl e, tr') \<Rightarrow> (if C e then h e tr' else (Inl e, tr'))
      | (Inr x, tr') \<Rightarrow> (Inr x, tr'))"

text \<open>\<^verbatim>\<open>xs[i]\<close> for an index that is not negative: out of range raises.\<close>

definition getitem :: "'a list \<Rightarrow> nat \<Rightarrow> 'a action" where
  "getitem xs i tr = (if i < length xs then (Inr (xs ! i), tr) else (Inl IndexError, tr))"

text \<open>The external calls as statements.\<close>

definition load :: "env \<Rightarrow> pystr \<Rightarrow> pystr \<Rightarrow> int option \<Rightarrow> unit action" where
  "load env task model device tr =
     (case pipeline env task model device of
        Some e \<Rightarrow> (Inl e, tr @ [Load task model])
      | None \<Rightarrow> (Inr (), tr @ [Load task model]))"

definition call_mask_filler :: "env \<Rightarrow> pystr \<Rightarrow> nat \<Rightarrow> fill_candidate list action" where
  "call_mask_filler env s top_k tr = (mask_filler env s top_k, tr @ [Call_mask_filler s top_k])"

definition call_text_generator ::
  "env \<Rightarrow> pystr \<Rightarrow> nat \<Rightarrow> nat \<Rightarrow> bool \<Rightarrow> generation list action" where
  "call_text_generator env s max_length num_return_sequences truncation tr =
     (text_generator env s max_length num_return_sequences truncation,
      tr @ [Call_text_generator s max_length num_return_sequences truncation])"

definition call_sentiment_analyzer :: "env \<Rightarrow> pystr \<Rightarrow> classification list action" where
  "call_sentiment_analyzer env s tr = (sentiment_analyzer env s, tr @ [Call_sentiment_analyzer s])"

definition call_summarizer :: "env \<Rightarrow> pystr \<Rightarrow> nat \<Rightarrow> nat \<Rightarrow> bool \<Rightarrow> summary list action" where
  "call_summarizer env s max_length min_length do_sample tr =
     (summarizer env s max_length min_length do_sample,
      tr @ [Call_summarizer s max_length min_length do_sample])"

definition call_qa_pipeline :: "env \<Rightarrow> pystr \<Rightarrow> pystr \<Rightarrow> extraction action" where
  "call_qa_pipeline env question context tr =
     (qa_pipeline env question context, tr @ [Call_qa_pipeline question context])"

text \<open>
  What \<^verbatim>\<open>text=True\<close> does to a captured stream once it is decoded:
  \<^verbatim>\<open>data.replace("\r\n", "\n").replace("\r", "\n")\<close>.
\<close>

fun replace_crlf :: "pystr \<Rightarrow> pystr" where
  "replace_crlf [] = []"
| "replace_crlf [c] = [c]"
| "replace_crlf (c # d # s) =
     (if c = 0x0D \<and> d = 0x0A then 0x0A # replace_crlf s else c # replace_crlf (d # s))"

definition replace_cr :: "pystr \<Rightarrow> pystr" where
  "replace_cr s = map (\<lambda>c. if c = 0x0D then 0x0A else c) s"

definition translate_newlines :: "pystr \<Rightarrow> pystr" where
  "translate_newlines s = replace_cr (replace_crlf s)"

text \<open>
  \<^verbatim>\<open>subprocess.run(command, input=..., text=True, capture_output=True, check=True)\<close>:
  the process is started with the input on its standard input and the call waits for its
  end; then the captured output is decoded, the standard output first and the error
  output after it; then, with \<^verbatim>\<open>check=True\<close>, an exit status other than zero raises
  \<^verbatim>\<open>CalledProcessError\<close>. So bytes that do not decode raise
  \<^verbatim>\<open>UnicodeDecodeError\<close> whatever the exit status is.
\<close>

definition subprocess_run ::
  "env \<Rightarrow> pystr list \<Rightarrow> pystr \<Rightarrow> pystr completed_process action" where
  "subprocess_run env command input tr =
     (case run_process env command input of
        Inl e \<Rightarrow> (Inl e, tr @ [Launch command input])
      | Inr p \<Rightarrow>
          (case decode env (stdout p) of
             None \<Rightarrow> Inl UnicodeDecodeError
           | Some out \<Rightarrow>
               (case decode env (stderr p) of
                  None \<Rightarrow> Inl UnicodeDecodeError
                | Some err \<Rightarrow>
                    if returncode p \<noteq> 0
                    then Inl (CalledProcessError (returncode p) command
                                (translate_newlines out) (translate_newlines err))
                    else Inr \<lparr>returncode = returncode p, stdout = translate_newlines out,
                              stderr = translate_newlines err\<rparr>),
           tr @ [Launch command input, Exit (returncode p)]))"

subsection \<open>The cells of the chain\<close>

definition masked_sentence :: pystr where
  "masked_sentence = str ''Renewable energy reduces [MASK].''"

text \<open>
  Step 1, fill-mask: gives \<^verbatim>\<open>unmasked_sentence\<close>. The sentence is a parameter of the
  cell here; the chain runs it on \<open>masked_sentence\<close>.
\<close>

definition step1 :: "env \<Rightarrow> pystr \<Rightarrow> pystr action" where
  "step1 env sentence =
     andthen (load env (str ''fill-mask'') (str ''bert-base-uncased'') None) (\<lambda>_.
     andthen (call_mask_filler env sentence 1) (\<lambda>fill_results.
     andthen (getitem fill_results 0) (\<lambda>d.
     return (k_sequence d))))"

text \<open>Step 2, text generation: gives \<^verbatim>\<open>generated_text\<close>.\<close>

definition step2 :: "env \<Rightarrow> pystr \<Rightarrow> pystr action" where
  "step2 env unmasked_sentence =
     andthen (load env (str ''text-generation'') (str ''gpt2'') None) (\<lambda>_.
     andthen (call_text_generator env unmasked_sentence 100 1 True) (\<lambda>generated_texts.
     andthen (getitem generated_texts 0) (\<lambda>d.
     return (k_generated_text d))))"

text \<open>Step 3, sentiment analysis: gives \<^verbatim>\<open>sentiment\<close> and \<^verbatim>\<open>confidence\<close>.\<close>

definition step3 :: "env \<Rightarrow> pystr \<Rightarrow> (pystr \<times> real) action" where
  "step3 env generated_text =
     andthen (load env (str ''sentiment-analysis'')
                (str ''distilbert/distilbert-base-uncased-finetuned-sst-2-english'') None) (\<lambda>_.
     andthen (call_sentiment_analyzer env generated_text) (\<lambda>sentiment_results.
     andthen (getitem sentiment_results 0) (\<lambda>d.
     andthen (getitem sentiment_results 0) (\<lambda>d'.
     return (k_label d, k_score d')))))"

text \<open>
  Step 4, summarization: gives \<^verbatim>\<open>summary_text\<close>. The model is loaded before the
  \<^verbatim>\<open>try\<close>; the call and the reading of its result are inside it.
\<close>

definition no_summary :: pystr where
  "no_summary = str ''No summary available.''"

definition step4 :: "env \<Rightarrow> pystr \<Rightarrow> pystr action" where
  "step4 env generated_text =
     andthen (load env (str ''summarization'') (str ''facebook/bart-large-cnn'') (Some (- 1))) (\<lambda>_.
     try_except
       (andthen (call_summarizer env generated_text 100 10 False) (\<lambda>summary.
        andthen (getitem summary 0) (\<lambda>d.
        return (k_summary_text d))))
       is_Exception
       (\<lambda>e. return no_summary))"

text \<open>Step 5, question generation.\<close>

definition command :: "pystr list" where
  "command = [str ''ollama'', str ''run'', str ''llama3.2'']"

definition instruction :: "pystr \<Rightarrow> pystr" where
  "instruction summary_text =
     str ''Generate a simple question based on the following summary:\<newline>\<newline>'' @
     summary_text @ str ''\<newline>\<newline>Question:''"

definition fallback_question :: pystr where
  "fallback_question = str ''What are the key points mentioned in the summary?''"

definition generate_question_with_instruction :: "env \<Rightarrow> pystr \<Rightarrow> pystr action" where
  "generate_question_with_instruction env summary_text =
     try_except
       (andthen (subprocess_run env command (instruction summary_text)) (\<lambda>result.
        return (strip (stdout result))))
       is_CalledProcessError
       (\<lambda>e. return fallback_question)"

text \<open>Step 6, question answering, with the summary as context: gives \<^verbatim>\<open>answer\<close>.\<close>

definition step6 :: "env \<Rightarrow> pystr \<Rightarrow> pystr \<Rightarrow> pystr action" where
  "step6 env question summary_text =
     andthen (load env (str ''question-answering'')
                (str ''google-bert/bert-large-uncased-whole-word-masking-finetuned-squad'') None) (\<lambda>_.
     andthen (call_qa_pipeline env question summary_text) (\<lambda>qa_result.
     return (k_answer qa_result)))"

text \<open>The variables the chain has set when it ends.\<close>

record variables =
  v_unmasked_sentence :: pystr
  v_generated_text :: pystr
  v_sentiment :: pystr
  v_confidence :: real
  v_summary_text :: pystr
  v_question :: pystr
  v_answer :: pystr

text \<open>The cells in the order the notebook runs them.\<close>

definition chain :: "env \<Rightarrow> variables action" where
  "chain env =
     andthen (step1 env masked_sentence) (\<lambda>unmasked_sentence.
     andthen (step2 env unmasked_sentence) (\<lambda>generated_text.
     andthen (step3 env generated_text) (\<lambda>(sentiment, confidence).
     andthen (step4 env generated_text) (\<lambda>summary_text.
     andthen (generate_question_with_instruction env summary_text) (\<lambda>question.
     andthen (step6 env question summary_text) (\<lambda>answer.
     return \<lparr>v_unmasked_sentence = unmasked_sentence, v_generated_text = generated_text,
             v_sentiment = sentiment, v_confidence = confidence,
             v_summary_text = summary_text, v_question = question,
             v_answer = answer\<rparr>))))))"

subsection \<open>Reading the record of calls\<close>

text \<open>The process launches of a record, each with its command and its standard input.\<close>

fun launches :: "event list \<Rightarrow> (pystr list \<times> pystr) list" where
  "launches [] = []"
| "launches (Launch c i # tr) = (c, i) # launches tr"
| "launches (ev # tr) = launches tr"

text \<open>
  The calls of the six stages in a record: the model calls and the process launch,
  without the loading of models and the end of the process.
\<close>

fun stage_calls :: "event list \<Rightarrow> event list" where
  "stage_calls [] = []"
| "stage_calls (Load t m # tr) = stage_calls tr"
| "stage_calls (Exit rc # tr) = stage_calls tr"
| "stage_calls (ev # tr) = ev # stage_calls tr"

subsection \<open>Stand-ins for the external calls\<close>

text \<open>
  The codec of an ASCII locale: a byte below 128 is its code point, any other byte does
  not decode. UTF-8 decodes every such byte string to the same text, and does not decode
  the byte \<^verbatim>\<open>FF\<close> either.
\<close>

definition ascii :: "string \<Rightarrow> pystr option" where
  "ascii bytes =
     (if list_all (\<lambda>b. (of_char b :: nat) < 0x80) bytes then Some (map of_char bytes) else None)"

text \<open>
  The scenario of the specification's section 8: every model is replaced by a stand-in
  with a fixed answer, and the process writes
  \<^verbatim>\<open>What caused the policy shift?\<close> and exits with status zero.
\<close>

definition standin :: env where
  "standin =
     \<lparr>pipeline = (\<lambda>task model device. None),
      mask_filler = (\<lambda>s top_k. Inr [\<lparr>k_sequence = str ''renewable energy reduces costs.''\<rparr>]),
      text_generator = (\<lambda>s max_length n truncation.
         Inr [\<lparr>k_generated_text = s @ str '' It also creates jobs.''\<rparr>]),
      sentiment_analyzer = (\<lambda>s. Inr [\<lparr>k_label = str ''POSITIVE'', k_score = 0.93\<rparr>]),
      summarizer = (\<lambda>s max_length min_length do_sample.
         Inr [\<lparr>k_summary_text = str ''Renewable energy cuts costs.''\<rparr>]),
      run_process = (\<lambda>c i.
         Inr \<lparr>returncode = 0, stdout = ''What caused the policy shift?'', stderr = []\<rparr>),
      decode = ascii,
      qa_pipeline = (\<lambda>question context. Inr \<lparr>k_answer = str ''costs''\<rparr>)\<rparr>"

text \<open>The same with a process that exits with status 1.\<close>

definition standin_exit1 :: env where
  "standin_exit1 =
     standin\<lparr>run_process := (\<lambda>c i.
       Inr \<lparr>returncode = 1, stdout = [], stderr = ''Error: model not found''\<rparr>)\<rparr>"

text \<open>The same with a process that exits with status 1 and writes a byte that is no text.\<close>

definition standin_exit1_undecodable :: env where
  "standin_exit1_undecodable =
     standin\<lparr>run_process := (\<lambda>c i.
       Inr \<lparr>returncode = 1, stdout = [], stderr = [CHR 0xFF]\<rparr>)\<rparr>"

text \<open>The same with no executable to launch.\<close>

definition standin_no_executable :: env where
  "standin_no_executable = standin\<lparr>run_process := (\<lambda>c i. Inl FileNotFoundError)\<rparr>"

text \<open>The same with a process whose output starts with a space and ends with a newline.\<close>

definition standin_leading_space :: env where
  "standin_leading_space =
     standin\<lparr>run_process := (\<lambda>c i.
       Inr \<lparr>returncode = 0, stdout = '' What caused the policy shift?\<newline>'', stderr = []\<rparr>)\<rparr>"

text \<open>The same with a summarizer that raises an error, and one that is interrupted.\<close>

definition standin_summarizer_error :: env where
  "standin_summarizer_error =
     standin\<lparr>summarizer := (\<lambda>s max_length min_length do_sample.
       Inl (OtherException (str ''RuntimeError'')))\<rparr>"

definition standin_summarizer_interrupt :: env where
  "standin_summarizer_interrupt =
     standin\<lparr>summarizer := (\<lambda>s max_length min_length do_sample. Inl KeyboardInterrupt)\<rparr>"

text \<open>The same with each of the other four models raising an error.\<close>

definition standin_mask_filler_error :: env where
  "standin_mask_filler_error =
     standin\<lparr>mask_filler := (\<lambda>s top_k. Inl (OtherException (str ''RuntimeError'')))\<rparr>"

definition standin_text_generator_error :: env where
  "standin_text_generator_error =
     standin\<lparr>text_generator := (\<lambda>s max_length n truncation.
       Inl (OtherException (str ''RuntimeError'')))\<rparr>"

definition standin_sentiment_error :: env where
  "standin_sentiment_error =
     standin\<lparr>sentiment_analyzer := (\<lambda>s. Inl (OtherException (str ''RuntimeError'')))\<rparr>"

definition standin_qa_error :: env where
  "standin_qa_error =
     standin\<lparr>qa_pipeline := (\<lambda>question context. Inl (OtherException (str ''RuntimeError'')))\<rparr>"

text \<open>The same with the loading of the model of one task raising an error.\<close>

definition standin_load_error :: "pystr \<Rightarrow> env" where
  "standin_load_error failing =
     standin\<lparr>pipeline := (\<lambda>task model device.
       if task = failing then Some (OtherException (str ''OSError'')) else None)\<rparr>"

text \<open>The same with a model that returns an empty list, one for each of the first three.\<close>

definition standin_no_candidate :: env where
  "standin_no_candidate = standin\<lparr>mask_filler := (\<lambda>s top_k. Inr [])\<rparr>"

definition standin_no_generation :: env where
  "standin_no_generation = standin\<lparr>text_generator := (\<lambda>s max_length n truncation. Inr [])\<rparr>"

definition standin_no_classification :: env where
  "standin_no_classification = standin\<lparr>sentiment_analyzer := (\<lambda>s. Inr [])\<rparr>"

text \<open>The same with a mask filler that returns two candidates.\<close>

definition standin_two_candidates :: env where
  "standin_two_candidates =
     standin\<lparr>mask_filler := (\<lambda>s top_k.
       Inr [\<lparr>k_sequence = str ''renewable energy reduces costs.''\<rparr>,
            \<lparr>k_sequence = str ''renewable energy reduces emissions.''\<rparr>])\<rparr>"

subsection \<open>An environment cut down to first elements\<close>

text \<open>
  \<open>first_only env\<close> is \<open>env\<close> with every result list cut after its first element: an
  empty list stays empty, an exception stays what it is.
\<close>

definition first_only :: "env \<Rightarrow> env" where
  "first_only env =
     env\<lparr>mask_filler := (\<lambda>s top_k. map_sum id (take 1) (mask_filler env s top_k)),
         text_generator := (\<lambda>s max_length n truncation.
           map_sum id (take 1) (text_generator env s max_length n truncation)),
         sentiment_analyzer := (\<lambda>s. map_sum id (take 1) (sentiment_analyzer env s)),
         summarizer := (\<lambda>s max_length min_length do_sample.
           map_sum id (take 1) (summarizer env s max_length min_length do_sample))\<rparr>"

section \<open>Properties\<close>

subsection \<open>Sequencing and the record of calls\<close>

lemmas stmt_defs = andthen_def try_except_def return_def getitem_def load_def
  call_mask_filler_def call_text_generator_def call_sentiment_analyzer_def
  call_summarizer_def call_qa_pipeline_def subprocess_run_def

lemma andthen_Inr: "m tr = (Inr x, tr') \<Longrightarrow> andthen m f tr = f x tr'"
  by (simp add: andthen_def)

lemma launches_append: "launches (tr @ tr') = launches tr @ launches tr'"
  by (induction tr rule: launches.induct) simp_all

lemma stage_calls_append: "stage_calls (tr @ tr') = stage_calls tr @ stage_calls tr'"
  by (induction tr rule: stage_calls.induct) simp_all

lemma str_eq_iff: "str a = str b \<longleftrightarrow> a = b"
  unfolding str_def using inj_of_char[where 'a=nat] by (simp add: inj_map_eq_map)

lemma str_append: "str a @ str b = str (a @ b)"
  by (simp add: str_def)

subsection \<open>The question generator, by the outcome of the process\<close>

lemma question_run:
  "generate_question_with_instruction env s tr =
     (case run_process env command (instruction s) of
        Inl e \<Rightarrow>
          (if is_CalledProcessError e then Inr fallback_question else Inl e,
           tr @ [Launch command (instruction s)])
      | Inr p \<Rightarrow>
          (case decode env (stdout p) of
             None \<Rightarrow> Inl UnicodeDecodeError
           | Some out \<Rightarrow>
               (case decode env (stderr p) of
                  None \<Rightarrow> Inl UnicodeDecodeError
                | Some err \<Rightarrow>
                    Inr (if returncode p = 0 then strip (translate_newlines out)
                         else fallback_question)),
           tr @ [Launch command (instruction s), Exit (returncode p)]))"
  by (simp add: generate_question_with_instruction_def stmt_defs
      split: sum.splits option.splits)

lemma question_exit_zero:
  "run_process env command (instruction s) = Inr p \<Longrightarrow> returncode p = 0 \<Longrightarrow>
   decode env (stdout p) = Some out \<Longrightarrow> decode env (stderr p) = Some err \<Longrightarrow>
   generate_question_with_instruction env s tr =
     (Inr (strip (translate_newlines out)), tr @ [Launch command (instruction s), Exit 0])"
  by (simp add: question_run)

lemma question_exit_nonzero:
  "run_process env command (instruction s) = Inr p \<Longrightarrow> returncode p \<noteq> 0 \<Longrightarrow>
   decode env (stdout p) = Some out \<Longrightarrow> decode env (stderr p) = Some err \<Longrightarrow>
   generate_question_with_instruction env s tr =
     (Inr fallback_question, tr @ [Launch command (instruction s), Exit (returncode p)])"
  by (simp add: question_run)

lemma question_undecodable:
  "run_process env command (instruction s) = Inr p \<Longrightarrow>
   decode env (stdout p) = None \<or> decode env (stderr p) = None \<Longrightarrow>
   generate_question_with_instruction env s tr =
     (Inl UnicodeDecodeError, tr @ [Launch command (instruction s), Exit (returncode p)])"
  by (auto simp: question_run split: option.splits)

lemma question_raised:
  "run_process env command (instruction s) = Inl e \<Longrightarrow>
   generate_question_with_instruction env s tr =
     (if is_CalledProcessError e then Inr fallback_question else Inl e,
      tr @ [Launch command (instruction s)])"
  by (simp add: question_run)

text \<open>
  Claim C7. Every call of \<open>generate_question_with_instruction\<close> starts the external
  process once: the call adds one launch to the record, whatever the process does, and
  nothing after it but the end of that process. The process has ended when the call
  returns: its \<open>Exit\<close> is in the record the call hands on.
\<close>

theorem one_launch_per_call:
  "snd (generate_question_with_instruction env s tr) =
     tr @ Launch command (instruction s) #
       (case run_process env command (instruction s) of
          Inl e \<Rightarrow> [] | Inr p \<Rightarrow> [Exit (returncode p)]) \<and>
   length (launches (snd (generate_question_with_instruction env s tr))) =
     Suc (length (launches tr))"
  by (simp add: question_run launches_append split: sum.splits)

text \<open>
  Claim C5. For every summary \<open>s\<close>, the one text written to the standard input of the
  process is the template with \<open>s\<close> in the place of \<^verbatim>\<open>{summary}\<close>, and the command is
  \<^verbatim>\<open>ollama run llama3.2\<close>; the call writes nothing else to any process.
\<close>

theorem instruction_on_stdin:
  "launches (snd (generate_question_with_instruction env s tr)) =
     launches tr @
     [([str ''ollama'', str ''run'', str ''llama3.2''],
       str ''Generate a simple question based on the following summary:\<newline>\<newline>'' @ s @
       str ''\<newline>\<newline>Question:'')]"
  by (simp add: question_run launches_append command_def instruction_def split: sum.splits)

text \<open>
  Claim C9. The handler of the question generator catches \<^verbatim>\<open>CalledProcessError\<close> only:
  when running the process raises anything else (the executable is not found, say), no
  fallback question is substituted and the exception leaves
  \<open>generate_question_with_instruction\<close>.
\<close>

theorem launch_failure_propagates:
  assumes "run_process env command (instruction s) = Inl e"
    and "\<not> is_CalledProcessError e"
  shows "generate_question_with_instruction env s tr =
           (Inl e, tr @ [Launch command (instruction s)])"
  using assms by (simp add: question_raised)

theorem launch_failure_propagates_witness:
  "run_process standin_no_executable command
     (instruction (str ''Renewable energy cuts costs.'')) = Inl FileNotFoundError \<and>
   \<not> is_CalledProcessError FileNotFoundError \<and>
   generate_question_with_instruction standin_no_executable
     (str ''Renewable energy cuts costs.'') [] =
   (Inl FileNotFoundError, [Launch command (instruction (str ''Renewable energy cuts costs.''))])"
proof -
  have h: "run_process standin_no_executable command
             (instruction (str ''Renewable energy cuts costs.'')) = Inl FileNotFoundError"
    by (simp add: standin_no_executable_def)
  have n: "\<not> is_CalledProcessError FileNotFoundError" by simp
  show ?thesis using h n launch_failure_propagates[OF h n, of "[]"] by simp
qed

subsection \<open>Each cell, by the outcome of its calls\<close>

lemma step1_run:
  "step1 env s tr =
     (case pipeline env (str ''fill-mask'') (str ''bert-base-uncased'') None of
        Some e \<Rightarrow> (Inl e, tr @ [Load (str ''fill-mask'') (str ''bert-base-uncased'')])
      | None \<Rightarrow>
          (case mask_filler env s 1 of
             Inl e \<Rightarrow> Inl e
           | Inr [] \<Rightarrow> Inl IndexError
           | Inr (d # ds) \<Rightarrow> Inr (k_sequence d),
           tr @ [Load (str ''fill-mask'') (str ''bert-base-uncased''), Call_mask_filler s 1]))"
  by (simp add: step1_def stmt_defs split: option.splits sum.splits list.splits)

lemma step2_run:
  "step2 env u tr =
     (case pipeline env (str ''text-generation'') (str ''gpt2'') None of
        Some e \<Rightarrow> (Inl e, tr @ [Load (str ''text-generation'') (str ''gpt2'')])
      | None \<Rightarrow>
          (case text_generator env u 100 1 True of
             Inl e \<Rightarrow> Inl e
           | Inr [] \<Rightarrow> Inl IndexError
           | Inr (d # ds) \<Rightarrow> Inr (k_generated_text d),
           tr @ [Load (str ''text-generation'') (str ''gpt2''),
                 Call_text_generator u 100 1 True]))"
  by (simp add: step2_def stmt_defs split: option.splits sum.splits list.splits)

lemma step3_run:
  "step3 env g tr =
     (case pipeline env (str ''sentiment-analysis'')
             (str ''distilbert/distilbert-base-uncased-finetuned-sst-2-english'') None of
        Some e \<Rightarrow>
          (Inl e, tr @ [Load (str ''sentiment-analysis'')
             (str ''distilbert/distilbert-base-uncased-finetuned-sst-2-english'')])
      | None \<Rightarrow>
          (case sentiment_analyzer env g of
             Inl e \<Rightarrow> Inl e
           | Inr [] \<Rightarrow> Inl IndexError
           | Inr (d # ds) \<Rightarrow> Inr (k_label d, k_score d),
           tr @ [Load (str ''sentiment-analysis'')
                   (str ''distilbert/distilbert-base-uncased-finetuned-sst-2-english''),
                 Call_sentiment_analyzer g]))"
  by (simp add: step3_def stmt_defs split: option.splits sum.splits list.splits)

lemma step4_run:
  "step4 env g tr =
     (case pipeline env (str ''summarization'') (str ''facebook/bart-large-cnn'') (Some (- 1)) of
        Some e \<Rightarrow> (Inl e, tr @ [Load (str ''summarization'') (str ''facebook/bart-large-cnn'')])
      | None \<Rightarrow>
          (case summarizer env g 100 10 False of
             Inl e \<Rightarrow> if is_Exception e then Inr no_summary else Inl e
           | Inr [] \<Rightarrow> Inr no_summary
           | Inr (d # ds) \<Rightarrow> Inr (k_summary_text d),
           tr @ [Load (str ''summarization'') (str ''facebook/bart-large-cnn''),
                 Call_summarizer g 100 10 False]))"
  by (simp add: step4_def stmt_defs split: option.splits sum.splits list.splits)

lemma step6_run:
  "step6 env q c tr =
     (case pipeline env (str ''question-answering'')
             (str ''google-bert/bert-large-uncased-whole-word-masking-finetuned-squad'') None of
        Some e \<Rightarrow>
          (Inl e, tr @ [Load (str ''question-answering'')
             (str ''google-bert/bert-large-uncased-whole-word-masking-finetuned-squad'')])
      | None \<Rightarrow>
          (case qa_pipeline env q c of
             Inl e \<Rightarrow> Inl e
           | Inr r \<Rightarrow> Inr (k_answer r),
           tr @ [Load (str ''question-answering'')
                   (str ''google-bert/bert-large-uncased-whole-word-masking-finetuned-squad''),
                 Call_qa_pipeline q c]))"
  by (simp add: step6_def stmt_defs split: option.splits sum.splits)

text \<open>The chain from the summary on, when the first four steps have returned.\<close>

lemma chain_from_summary:
  assumes "step1 env masked_sentence ta = (Inr u, tb)"
    and "step2 env u tb = (Inr g, tc)"
    and "step3 env g tc = (Inr (sent, conf), td)"
    and "step4 env g td = (Inr s, te)"
  shows "chain env ta =
           andthen (generate_question_with_instruction env s) (\<lambda>question.
           andthen (step6 env question s) (\<lambda>answer.
           return \<lparr>v_unmasked_sentence = u, v_generated_text = g, v_sentiment = sent,
                   v_confidence = conf, v_summary_text = s, v_question = question,
                   v_answer = answer\<rparr>)) te"
  using assms by (simp add: chain_def andthen_def)

text \<open>
  Claim C1, as amended. For every summary, when the external process ends with a status
  other than zero and what it wrote to its standard output and to its error output
  decodes as text, \<open>generate_question_with_instruction\<close> returns the fixed fallback
  question, after one launch and no second one; and the chain goes on from there with
  step 6 run on that string as the question.
\<close>

theorem nonzero_exit_gives_fallback:
  assumes "run_process env command (instruction s) = Inr p"
    and "returncode p \<noteq> 0"
    and "decode env (stdout p) = Some out"
    and "decode env (stderr p) = Some err"
  shows "generate_question_with_instruction env s tr =
           (Inr (str ''What are the key points mentioned in the summary?''),
            tr @ [Launch command (instruction s), Exit (returncode p)]) \<and>
         (step1 env masked_sentence ta = (Inr u, tb) \<and>
          step2 env u tb = (Inr g, tc) \<and>
          step3 env g tc = (Inr (sent, conf), td) \<and>
          step4 env g td = (Inr s, tr) \<longrightarrow>
          chain env ta =
            andthen (step6 env (str ''What are the key points mentioned in the summary?'') s)
              (\<lambda>answer.
                 return \<lparr>v_unmasked_sentence = u, v_generated_text = g, v_sentiment = sent,
                   v_confidence = conf, v_summary_text = s,
                   v_question = str ''What are the key points mentioned in the summary?'',
                   v_answer = answer\<rparr>)
              (tr @ [Launch command (instruction s), Exit (returncode p)]))"
proof -
  have q: "generate_question_with_instruction env s tr =
             (Inr fallback_question, tr @ [Launch command (instruction s), Exit (returncode p)])"
    using assms by (rule question_exit_nonzero)
  show ?thesis
  proof (intro conjI impI)
    show "generate_question_with_instruction env s tr =
           (Inr (str ''What are the key points mentioned in the summary?''),
            tr @ [Launch command (instruction s), Exit (returncode p)])"
      using q by (simp add: fallback_question_def)
  next
    assume "step1 env masked_sentence ta = (Inr u, tb) \<and>
          step2 env u tb = (Inr g, tc) \<and>
          step3 env g tc = (Inr (sent, conf), td) \<and>
          step4 env g td = (Inr s, tr)"
    then have "chain env ta =
           andthen (generate_question_with_instruction env s) (\<lambda>question.
           andthen (step6 env question s) (\<lambda>answer.
           return \<lparr>v_unmasked_sentence = u, v_generated_text = g, v_sentiment = sent,
                   v_confidence = conf, v_summary_text = s, v_question = question,
                   v_answer = answer\<rparr>)) tr"
      by (elim conjE) (rule chain_from_summary; assumption)
    then show "chain env ta =
            andthen (step6 env (str ''What are the key points mentioned in the summary?'') s)
              (\<lambda>answer.
                 return \<lparr>v_unmasked_sentence = u, v_generated_text = g, v_sentiment = sent,
                   v_confidence = conf, v_summary_text = s,
                   v_question = str ''What are the key points mentioned in the summary?'',
                   v_answer = answer\<rparr>)
              (tr @ [Launch command (instruction s), Exit (returncode p)])"
      using q by (simp add: andthen_Inr fallback_question_def)
  qed
qed

theorem nonzero_exit_gives_fallback_witness:
  "run_process standin_exit1 command (instruction (str ''Renewable energy cuts costs.'')) =
     Inr \<lparr>returncode = 1, stdout = [], stderr = ''Error: model not found''\<rparr> \<and>
   decode standin_exit1 [] = Some [] \<and>
   decode standin_exit1 ''Error: model not found'' = Some (str ''Error: model not found'') \<and>
   generate_question_with_instruction standin_exit1 (str ''Renewable energy cuts costs.'') [] =
     (Inr (str ''What are the key points mentioned in the summary?''),
      [Launch command (instruction (str ''Renewable energy cuts costs.'')), Exit 1]) \<and>
   fst (chain standin_exit1 []) =
     Inr \<lparr>v_unmasked_sentence = str ''renewable energy reduces costs.'',
          v_generated_text = str ''renewable energy reduces costs. It also creates jobs.'',
          v_sentiment = str ''POSITIVE'', v_confidence = 0.93,
          v_summary_text = str ''Renewable energy cuts costs.'',
          v_question = str ''What are the key points mentioned in the summary?'',
          v_answer = str ''costs''\<rparr> \<and>
   stage_calls (snd (chain standin_exit1 [])) =
     [Call_mask_filler masked_sentence 1,
      Call_text_generator (str ''renewable energy reduces costs.'') 100 1 True,
      Call_sentiment_analyzer (str ''renewable energy reduces costs. It also creates jobs.''),
      Call_summarizer (str ''renewable energy reduces costs. It also creates jobs.'') 100 10 False,
      Launch command (instruction (str ''Renewable energy cuts costs.'')),
      Call_qa_pipeline (str ''What are the key points mentioned in the summary?'')
        (str ''Renewable energy cuts costs.'')]"
proof -
  let ?s = "str ''Renewable energy cuts costs.''"
  let ?u = "str ''renewable energy reduces costs.''"
  let ?g = "str ''renewable energy reduces costs. It also creates jobs.''"
  let ?p = "\<lparr>returncode = 1, stdout = [], stderr = ''Error: model not found''\<rparr>"
  let ?tb = "[Load (str ''fill-mask'') (str ''bert-base-uncased''),
              Call_mask_filler masked_sentence 1]"
  let ?tc = "?tb @ [Load (str ''text-generation'') (str ''gpt2''),
              Call_text_generator ?u 100 1 True]"
  let ?td = "?tc @ [Load (str ''sentiment-analysis'')
                (str ''distilbert/distilbert-base-uncased-finetuned-sst-2-english''),
              Call_sentiment_analyzer ?g]"
  let ?te = "?td @ [Load (str ''summarization'') (str ''facebook/bart-large-cnn''),
              Call_summarizer ?g 100 10 False]"
  have h: "run_process standin_exit1 command (instruction ?s) = Inr ?p"
    by (simp add: standin_exit1_def)
  have n: "returncode ?p \<noteq> 0" by simp
  have o: "decode standin_exit1 (stdout ?p) = Some []"
    by (simp add: standin_exit1_def standin_def ascii_def)
  have e: "decode standin_exit1 (stderr ?p) = Some (str ''Error: model not found'')"
    by (simp add: standin_exit1_def standin_def ascii_def str_def)
  have s1: "step1 standin_exit1 masked_sentence [] = (Inr ?u, ?tb)"
    by (simp add: step1_run standin_exit1_def standin_def)
  have s2: "step2 standin_exit1 ?u ?tb = (Inr ?g, ?tc)"
    by (simp add: step2_run standin_exit1_def standin_def str_append)
  have s3: "step3 standin_exit1 ?g ?tc = (Inr (str ''POSITIVE'', 0.93), ?td)"
    by (simp add: step3_run standin_exit1_def standin_def)
  have s4: "step4 standin_exit1 ?g ?td = (Inr ?s, ?te)"
    by (simp add: step4_run standin_exit1_def standin_def)
  note t = nonzero_exit_gives_fallback[OF h n o e]
  have c: "chain standin_exit1 [] =
      andthen (step6 standin_exit1 (str ''What are the key points mentioned in the summary?'') ?s)
        (\<lambda>answer.
           return \<lparr>v_unmasked_sentence = ?u, v_generated_text = ?g,
             v_sentiment = str ''POSITIVE'', v_confidence = 0.93, v_summary_text = ?s,
             v_question = str ''What are the key points mentioned in the summary?'',
             v_answer = answer\<rparr>)
        (?te @ [Launch command (instruction ?s), Exit (returncode ?p)])"
    using t[where tr = ?te and ta = "[]" and u = ?u and tb = ?tb and g = ?g and tc = ?tc
        and sent = "str ''POSITIVE''" and conf = "0.93" and td = ?td] s1 s2 s3 s4
    by simp
  have a: "generate_question_with_instruction standin_exit1 ?s [] =
     (Inr (str ''What are the key points mentioned in the summary?''),
      [Launch command (instruction ?s), Exit 1])"
    using t[of "[]"] by simp
  have o': "decode standin_exit1 [] = Some []" using o by simp
  have e': "decode standin_exit1 ''Error: model not found'' = Some (str ''Error: model not found'')"
    using e by simp
  show ?thesis
    unfolding c a h o' e'
    by (simp add: step6_run andthen_def return_def standin_exit1_def standin_def)
qed

text \<open>
  Claim C1 as stated fails: the process ends with status 1 and has written a byte that
  is no text to its error output. The output is decoded before the exit status is looked
  at, the \<^verbatim>\<open>UnicodeDecodeError\<close> is not a \<^verbatim>\<open>CalledProcessError\<close>, so it leaves
  the function; no fallback question is returned and the chain ends there.
\<close>

theorem nonzero_exit_undecodable_counterexample:
  "run_process standin_exit1_undecodable command
     (instruction (str ''Renewable energy cuts costs.'')) =
     Inr \<lparr>returncode = 1, stdout = [], stderr = [CHR 0xFF]\<rparr> \<and>
   decode standin_exit1_undecodable [CHR 0xFF] = None \<and>
   generate_question_with_instruction standin_exit1_undecodable
     (str ''Renewable energy cuts costs.'') [] =
     (Inl UnicodeDecodeError,
      [Launch command (instruction (str ''Renewable energy cuts costs.'')), Exit 1]) \<and>
   fst (chain standin_exit1_undecodable []) = Inl UnicodeDecodeError \<and>
   stage_calls (snd (chain standin_exit1_undecodable [])) =
     [Call_mask_filler masked_sentence 1,
      Call_text_generator (str ''renewable energy reduces costs.'') 100 1 True,
      Call_sentiment_analyzer (str ''renewable energy reduces costs. It also creates jobs.''),
      Call_summarizer (str ''renewable energy reduces costs. It also creates jobs.'') 100 10 False,
      Launch command (instruction (str ''Renewable energy cuts costs.''))]"
  by (simp add: chain_def andthen_def step1_run step2_run step3_run step4_run question_run
      standin_exit1_undecodable_def standin_def ascii_def str_append)

subsection \<open>What \<open>strip\<close> removes\<close>

lemma rstrip_decomposition: "t = rstrip t @ rev (takeWhile isspace (rev t))"
proof -
  have "rev t = takeWhile isspace (rev t) @ dropWhile isspace (rev t)"
    by (simp only: takeWhile_dropWhile_id)
  then have "rev (rev t) = rev (takeWhile isspace (rev t) @ dropWhile isspace (rev t))"
    by (rule arg_cong)
  then show ?thesis
    by (simp only: rev_rev_ident rev_append rstrip_def)
qed

lemma strip_decomposition:
  "\<exists>pre suf. s = pre @ strip s @ suf \<and> list_all isspace pre \<and> list_all isspace suf"
proof (intro exI conjI)
  have "s = takeWhile isspace s @ lstrip s"
    by (simp add: lstrip_def)
  then show "s = takeWhile isspace s @ strip s @ rev (takeWhile isspace (rev (lstrip s)))"
    using rstrip_decomposition[of "lstrip s"] by (simp add: strip_def)
  show "list_all isspace (takeWhile isspace s)"
    using set_takeWhileD[of _ isspace s] by (auto simp: list_all_iff)
  show "list_all isspace (rev (takeWhile isspace (rev (lstrip s))))"
    using set_takeWhileD[of _ isspace "rev (lstrip s)"] by (auto simp: list_all_iff)
qed

lemma strip_ends:
  assumes "strip s \<noteq> []"
  shows "\<not> isspace (hd (strip s)) \<and> \<not> isspace (last (strip s))"
proof
  let ?r = "dropWhile isspace (rev (lstrip s))"
  have r: "?r \<noteq> []" using assms by (simp add: strip_def rstrip_def)
  have "last (strip s) = hd ?r"
    using r by (simp add: strip_def rstrip_def last_rev)
  then show "\<not> isspace (last (strip s))"
    using r hd_dropWhile[of isspace "rev (lstrip s)"] by simp
  have t: "lstrip s \<noteq> []"
  proof
    assume "lstrip s = []"
    then show False using r by simp
  qed
  have "lstrip s = strip s @ rev (takeWhile isspace (rev (lstrip s)))"
    using rstrip_decomposition[of "lstrip s"] by (simp add: strip_def)
  then have "hd (lstrip s) = hd (strip s)"
    using assms by (metis hd_append2)
  then show "\<not> isspace (hd (strip s))"
    using t hd_dropWhile[of isspace s] by (simp add: lstrip_def)
qed

lemma strip_without_leading_space: "lstrip s = s \<Longrightarrow> strip s = rstrip s"
  by (simp add: strip_def)

lemma strip_example:
  "strip (str ''What caused the policy shift?'') = str ''What caused the policy shift?''"
  by (simp add: strip_def lstrip_def rstrip_def str_def isspace_def)

lemma strip_example_leading:
  "strip (str '' What caused the policy shift?\<newline>'') = str ''What caused the policy shift?''"
  by (simp add: strip_def lstrip_def rstrip_def str_def isspace_def)

lemma rstrip_example_leading:
  "rstrip (str '' What caused the policy shift?\<newline>'') = str '' What caused the policy shift?''"
  by (simp add: rstrip_def str_def isspace_def)

subsection \<open>What decoding as text changes\<close>

lemma replace_crlf_without_cr: "0x0D \<notin> set s \<Longrightarrow> replace_crlf s = s"
  by (induction s rule: replace_crlf.induct) auto

lemma replace_cr_without_cr: "0x0D \<notin> set s \<Longrightarrow> replace_cr s = s"
  by (induction s) (auto simp: replace_cr_def)

lemma translate_newlines_without_cr: "0x0D \<notin> set s \<Longrightarrow> translate_newlines s = s"
  by (simp add: translate_newlines_def replace_crlf_without_cr replace_cr_without_cr)

lemma translate_newlines_example:
  "strip (translate_newlines
     (str ''What caused'' @ [0x0D, 0x0A] @ str ''the shift?'' @ [0x0D] @ str ''Now?'' @
      [0x0D, 0x0A])) =
   str ''What caused'' @ [0x0A] @ str ''the shift?'' @ [0x0A] @ str ''Now?''"
  by (simp add: translate_newlines_def replace_cr_def strip_def lstrip_def rstrip_def
      str_def isspace_def)

lemma ascii_example:
  "ascii ''What caused the policy shift?'' = Some (str ''What caused the policy shift?'')"
  by (simp add: ascii_def str_def)

lemma ascii_example_leading:
  "ascii '' What caused the policy shift?\<newline>'' =
   Some (str '' What caused the policy shift?\<newline>'')"
  by (simp add: ascii_def str_def)

lemma translate_newlines_example_plain:
  "translate_newlines (str ''What caused the policy shift?'') =
   str ''What caused the policy shift?''"
  by (rule translate_newlines_without_cr) (simp add: str_def)

lemma translate_newlines_example_leading:
  "translate_newlines (str '' What caused the policy shift?\<newline>'') =
   str '' What caused the policy shift?\<newline>''"
  by (rule translate_newlines_without_cr) (simp add: str_def)

text \<open>
  Claim C4, as amended. For every summary, when the external process ends with status
  zero and what it wrote to its standard output and to its error output decodes as text,
  the question generator returns the decoded standard output, every \<^verbatim>\<open>\r\n\<close> and
  \<^verbatim>\<open>\r\<close> in it turned into \<^verbatim>\<open>\n\<close>, with the whitespace at both ends removed, the
  leading as well as the trailing, and what lies between unchanged: that text is the
  result with whitespace before and after it, and the result neither starts nor ends with
  whitespace. A text without \<^verbatim>\<open>\r\<close> is not changed by the decoding; a text without
  leading whitespace has only its trailing whitespace trimmed; for the output
  \<^verbatim>\<open>What caused the policy shift?\<close> the result is that string.
\<close>

theorem zero_exit_gives_stripped_output:
  assumes "run_process env command (instruction s) = Inr p"
    and "returncode p = 0"
    and "decode env (stdout p) = Some out"
    and "decode env (stderr p) = Some err"
  shows "generate_question_with_instruction env s tr =
           (Inr (strip (translate_newlines out)),
            tr @ [Launch command (instruction s), Exit 0]) \<and>
         (\<exists>pre suf. translate_newlines out = pre @ strip (translate_newlines out) @ suf \<and>
            list_all isspace pre \<and> list_all isspace suf) \<and>
         (strip (translate_newlines out) \<noteq> [] \<longrightarrow>
            \<not> isspace (hd (strip (translate_newlines out))) \<and>
            \<not> isspace (last (strip (translate_newlines out)))) \<and>
         (0x0D \<notin> set out \<longrightarrow> translate_newlines out = out) \<and>
         (lstrip (translate_newlines out) = translate_newlines out \<longrightarrow>
            strip (translate_newlines out) = rstrip (translate_newlines out)) \<and>
         (out = str ''What caused the policy shift?'' \<longrightarrow>
            fst (generate_question_with_instruction env s tr) =
              Inr (str ''What caused the policy shift?''))"
  using assms strip_decomposition[of "translate_newlines out"]
    strip_ends[of "translate_newlines out"]
  by (simp add: question_exit_zero strip_without_leading_space strip_example
      translate_newlines_without_cr translate_newlines_example_plain)

theorem zero_exit_gives_stripped_output_witness:
  "run_process standin command (instruction (str ''Renewable energy cuts costs.'')) =
     Inr \<lparr>returncode = 0, stdout = ''What caused the policy shift?'', stderr = []\<rparr> \<and>
   decode standin ''What caused the policy shift?'' =
     Some (str ''What caused the policy shift?'') \<and>
   decode standin [] = Some [] \<and>
   0x0D \<notin> set (str ''What caused the policy shift?'') \<and>
   strip (translate_newlines (str ''What caused the policy shift?'')) \<noteq> [] \<and>
   lstrip (translate_newlines (str ''What caused the policy shift?'')) =
     translate_newlines (str ''What caused the policy shift?'') \<and>
   generate_question_with_instruction standin (str ''Renewable energy cuts costs.'') [] =
     (Inr (str ''What caused the policy shift?''),
      [Launch command (instruction (str ''Renewable energy cuts costs.'')), Exit 0])"
proof -
  let ?p = "\<lparr>returncode = 0, stdout = ''What caused the policy shift?'', stderr = []\<rparr>"
  let ?out = "str ''What caused the policy shift?''"
  have h: "run_process standin command (instruction (str ''Renewable energy cuts costs.'')) =
             Inr ?p"
    by (simp add: standin_def)
  have z: "returncode ?p = 0" by simp
  have o: "decode standin (stdout ?p) = Some ?out"
    by (simp add: standin_def ascii_example)
  have e: "decode standin (stderr ?p) = Some []"
    by (simp add: standin_def ascii_def)
  have c: "0x0D \<notin> set ?out"
    by (simp add: str_def)
  have l: "lstrip (translate_newlines ?out) = translate_newlines ?out"
    by (simp add: translate_newlines_example_plain) (simp add: lstrip_def str_def isspace_def)
  have n: "strip (translate_newlines ?out) \<noteq> []"
    by (simp add: translate_newlines_example_plain strip_example) (simp add: str_def)
  have o': "decode standin ''What caused the policy shift?'' = Some ?out" using o by simp
  have e': "decode standin [] = Some []" using e by simp
  have r: "generate_question_with_instruction standin (str ''Renewable energy cuts costs.'') [] =
     (Inr ?out, [Launch command (instruction (str ''Renewable energy cuts costs.'')), Exit 0])"
    using zero_exit_gives_stripped_output[OF h z o e, of "[]"]
    by (simp add: translate_newlines_example_plain strip_example)
  show ?thesis
    using h o' e' c l n r by simp
qed

text \<open>
  Claim C4 as stated fails: the process writes a space, the question and a newline. The
  stage returns the question without the space, which is not the output with only its
  trailing whitespace trimmed.
\<close>

theorem trailing_only_trim_counterexample:
  "run_process standin_leading_space command (instruction (str ''Renewable energy cuts costs.'')) =
     Inr \<lparr>returncode = 0, stdout = '' What caused the policy shift?\<newline>'', stderr = []\<rparr> \<and>
   decode standin_leading_space '' What caused the policy shift?\<newline>'' =
     Some (str '' What caused the policy shift?\<newline>'') \<and>
   fst (generate_question_with_instruction standin_leading_space
          (str ''Renewable energy cuts costs.'') []) =
     Inr (str ''What caused the policy shift?'') \<and>
   rstrip (str '' What caused the policy shift?\<newline>'') = str '' What caused the policy shift?'' \<and>
   fst (generate_question_with_instruction standin_leading_space
          (str ''Renewable energy cuts costs.'') []) \<noteq>
     Inr (rstrip (str '' What caused the policy shift?\<newline>''))"
proof -
  let ?p = "\<lparr>returncode = 0, stdout = '' What caused the policy shift?\<newline>'', stderr = []\<rparr>"
  have h: "run_process standin_leading_space command
             (instruction (str ''Renewable energy cuts costs.'')) = Inr ?p"
    by (simp add: standin_leading_space_def)
  have o: "decode standin_leading_space '' What caused the policy shift?\<newline>'' =
             Some (str '' What caused the policy shift?\<newline>'')"
    by (simp add: standin_leading_space_def standin_def ascii_example_leading)
  have e: "decode standin_leading_space [] = Some []"
    by (simp add: standin_leading_space_def standin_def ascii_def)
  have d: "str ''What caused the policy shift?'' \<noteq> str '' What caused the policy shift?''"
    by (simp add: str_eq_iff)
  have q: "generate_question_with_instruction standin_leading_space
            (str ''Renewable energy cuts costs.'') [] =
           (Inr (str ''What caused the policy shift?''),
            [Launch command (instruction (str ''Renewable energy cuts costs.'')), Exit 0])"
    using question_exit_zero[OF h _ _ _, of "str '' What caused the policy shift?\<newline>''" "[]" "[]"]
      o e
    by (simp add: translate_newlines_example_leading strip_example_leading)
  show ?thesis
    using h o d by (simp add: q rstrip_example_leading)
qed

lemma ascii_empty: "ascii [] = Some []"
  by (simp add: ascii_def)

text \<open>
  Claim C2, as amended. For every input text, when the summarization call raises an
  exception that derives from \<^verbatim>\<open>Exception\<close>, step 4 catches it and sets the summary to
  \<^verbatim>\<open>No summary available.\<close>; the chain goes on, and that string is the context
  given to the question-answering model.
\<close>

theorem summarizer_exception_gives_sentinel:
  assumes "pipeline env (str ''summarization'') (str ''facebook/bart-large-cnn'') (Some (- 1)) = None"
    and "summarizer env g 100 10 False = Inl e"
    and "is_Exception e"
  shows "step4 env g tr =
           (Inr (str ''No summary available.''),
            tr @ [Load (str ''summarization'') (str ''facebook/bart-large-cnn''),
                  Call_summarizer g 100 10 False]) \<and>
         (step1 env masked_sentence ta = (Inr u, tb) \<and>
          step2 env u tb = (Inr g, tc) \<and>
          step3 env g tc = (Inr (sent, conf), tr) \<and>
          generate_question_with_instruction env (str ''No summary available.'')
            (tr @ [Load (str ''summarization'') (str ''facebook/bart-large-cnn''),
                   Call_summarizer g 100 10 False]) = (Inr q, td) \<and>
          pipeline env (str ''question-answering'')
            (str ''google-bert/bert-large-uncased-whole-word-masking-finetuned-squad'') None = None \<longrightarrow>
          chain env ta =
            (case qa_pipeline env q (str ''No summary available.'') of
               Inl x \<Rightarrow> Inl x
             | Inr r \<Rightarrow>
                 Inr \<lparr>v_unmasked_sentence = u, v_generated_text = g, v_sentiment = sent,
                      v_confidence = conf, v_summary_text = str ''No summary available.'',
                      v_question = q, v_answer = k_answer r\<rparr>,
             td @ [Load (str ''question-answering'')
                     (str ''google-bert/bert-large-uncased-whole-word-masking-finetuned-squad''),
                   Call_qa_pipeline q (str ''No summary available.'')]))"
proof -
  have s4: "step4 env g tr =
           (Inr (str ''No summary available.''),
            tr @ [Load (str ''summarization'') (str ''facebook/bart-large-cnn''),
                  Call_summarizer g 100 10 False])"
    using assms by (simp add: step4_run no_summary_def)
  show ?thesis
  proof (intro conjI impI)
    show "step4 env g tr =
           (Inr (str ''No summary available.''),
            tr @ [Load (str ''summarization'') (str ''facebook/bart-large-cnn''),
                  Call_summarizer g 100 10 False])"
      by (rule s4)
  next
    assume a: "step1 env masked_sentence ta = (Inr u, tb) \<and>
          step2 env u tb = (Inr g, tc) \<and>
          step3 env g tc = (Inr (sent, conf), tr) \<and>
          generate_question_with_instruction env (str ''No summary available.'')
            (tr @ [Load (str ''summarization'') (str ''facebook/bart-large-cnn''),
                   Call_summarizer g 100 10 False]) = (Inr q, td) \<and>
          pipeline env (str ''question-answering'')
            (str ''google-bert/bert-large-uncased-whole-word-masking-finetuned-squad'') None = None"
    then have "chain env ta =
           andthen (generate_question_with_instruction env (str ''No summary available.''))
            (\<lambda>question.
           andthen (step6 env question (str ''No summary available.'')) (\<lambda>answer.
           return \<lparr>v_unmasked_sentence = u, v_generated_text = g, v_sentiment = sent,
                   v_confidence = conf, v_summary_text = str ''No summary available.'',
                   v_question = question, v_answer = answer\<rparr>))
            (tr @ [Load (str ''summarization'') (str ''facebook/bart-large-cnn''),
                   Call_summarizer g 100 10 False])"
      using s4 by (intro chain_from_summary[where tb = tb and tc = tc and td = tr]) simp_all
    then show "chain env ta =
            (case qa_pipeline env q (str ''No summary available.'') of
               Inl x \<Rightarrow> Inl x
             | Inr r \<Rightarrow>
                 Inr \<lparr>v_unmasked_sentence = u, v_generated_text = g, v_sentiment = sent,
                      v_confidence = conf, v_summary_text = str ''No summary available.'',
                      v_question = q, v_answer = k_answer r\<rparr>,
             td @ [Load (str ''question-answering'')
                     (str ''google-bert/bert-large-uncased-whole-word-masking-finetuned-squad''),
                   Call_qa_pipeline q (str ''No summary available.'')])"
      using a by (simp add: andthen_def return_def step6_run split: sum.splits)
  qed
qed

theorem summarizer_exception_gives_sentinel_witness:
  "summarizer standin_summarizer_error
     (str ''renewable energy reduces costs. It also creates jobs.'') 100 10 False =
     Inl (OtherException (str ''RuntimeError'')) \<and>
   is_Exception (OtherException (str ''RuntimeError'')) \<and>
   fst (chain standin_summarizer_error []) =
     Inr \<lparr>v_unmasked_sentence = str ''renewable energy reduces costs.'',
          v_generated_text = str ''renewable energy reduces costs. It also creates jobs.'',
          v_sentiment = str ''POSITIVE'', v_confidence = 0.93,
          v_summary_text = str ''No summary available.'',
          v_question = str ''What caused the policy shift?'',
          v_answer = str ''costs''\<rparr> \<and>
   stage_calls (snd (chain standin_summarizer_error [])) =
     [Call_mask_filler masked_sentence 1,
      Call_text_generator (str ''renewable energy reduces costs.'') 100 1 True,
      Call_sentiment_analyzer (str ''renewable energy reduces costs. It also creates jobs.''),
      Call_summarizer (str ''renewable energy reduces costs. It also creates jobs.'') 100 10 False,
      Launch command (instruction (str ''No summary available.'')),
      Call_qa_pipeline (str ''What caused the policy shift?'') (str ''No summary available.'')]"
proof -
  let ?env = standin_summarizer_error
  let ?u = "str ''renewable energy reduces costs.''"
  let ?g = "str ''renewable energy reduces costs. It also creates jobs.''"
  let ?e = "OtherException (str ''RuntimeError'')"
  let ?q = "str ''What caused the policy shift?''"
  let ?tb = "[Load (str ''fill-mask'') (str ''bert-base-uncased''),
              Call_mask_filler masked_sentence 1]"
  let ?tc = "?tb @ [Load (str ''text-generation'') (str ''gpt2''),
              Call_text_generator ?u 100 1 True]"
  let ?td = "?tc @ [Load (str ''sentiment-analysis'')
                (str ''distilbert/distilbert-base-uncased-finetuned-sst-2-english''),
              Call_sentiment_analyzer ?g]"
  let ?te = "?td @ [Load (str ''summarization'') (str ''facebook/bart-large-cnn''),
              Call_summarizer ?g 100 10 False]"
  let ?tf = "?te @ [Launch command (instruction (str ''No summary available.'')), Exit 0]"
  have l: "pipeline ?env (str ''summarization'') (str ''facebook/bart-large-cnn'') (Some (- 1)) = None"
    by (simp add: standin_summarizer_error_def standin_def)
  have h: "summarizer ?env ?g 100 10 False = Inl ?e"
    by (simp add: standin_summarizer_error_def)
  have i: "is_Exception ?e" by simp
  have s1: "step1 ?env masked_sentence [] = (Inr ?u, ?tb)"
    by (simp add: step1_run standin_summarizer_error_def standin_def)
  have s2: "step2 ?env ?u ?tb = (Inr ?g, ?tc)"
    by (simp add: step2_run standin_summarizer_error_def standin_def str_append)
  have s3: "step3 ?env ?g ?tc = (Inr (str ''POSITIVE'', 0.93), ?td)"
    by (simp add: step3_run standin_summarizer_error_def standin_def)
  have q: "generate_question_with_instruction ?env (str ''No summary available.'') ?te =
             (Inr ?q, ?tf)"
    by (simp add: question_run standin_summarizer_error_def standin_def strip_example
        ascii_example ascii_empty translate_newlines_example_plain)
  have lq: "pipeline ?env (str ''question-answering'')
            (str ''google-bert/bert-large-uncased-whole-word-masking-finetuned-squad'') None = None"
    by (simp add: standin_summarizer_error_def standin_def)
  note t = summarizer_exception_gives_sentinel[OF l h i]
  have c: "chain ?env [] =
            (case qa_pipeline ?env ?q (str ''No summary available.'') of
               Inl x \<Rightarrow> Inl x
             | Inr r \<Rightarrow>
                 Inr \<lparr>v_unmasked_sentence = ?u, v_generated_text = ?g,
                      v_sentiment = str ''POSITIVE'', v_confidence = 0.93,
                      v_summary_text = str ''No summary available.'',
                      v_question = ?q, v_answer = k_answer r\<rparr>,
             ?tf @ [Load (str ''question-answering'')
                     (str ''google-bert/bert-large-uncased-whole-word-masking-finetuned-squad''),
                   Call_qa_pipeline ?q (str ''No summary available.'')])"
    using t[where tr = ?td and ta = "[]" and u = ?u and tb = ?tb and tc = ?tc
        and sent = "str ''POSITIVE''" and conf = "0.93" and q = ?q and td = ?tf] s1 s2 s3 q lq
    by simp
  show ?thesis
    unfolding c h
    by (simp add: standin_summarizer_error_def standin_def)
qed

text \<open>
  Claim C2 as stated fails: \<^verbatim>\<open>except Exception\<close> does not match an exception that
  derives from \<^verbatim>\<open>BaseException\<close> only. When the summarization call is interrupted, the
  \<^verbatim>\<open>KeyboardInterrupt\<close> leaves step 4, no summary is set and the chain ends there.
\<close>

theorem interrupt_not_caught_counterexample:
  "summarizer standin_summarizer_interrupt
     (str ''renewable energy reduces costs. It also creates jobs.'') 100 10 False =
     Inl KeyboardInterrupt \<and>
   fst (step4 standin_summarizer_interrupt
          (str ''renewable energy reduces costs. It also creates jobs.'') []) =
     Inl KeyboardInterrupt \<and>
   fst (chain standin_summarizer_interrupt []) = Inl KeyboardInterrupt \<and>
   stage_calls (snd (chain standin_summarizer_interrupt [])) =
     [Call_mask_filler masked_sentence 1,
      Call_text_generator (str ''renewable energy reduces costs.'') 100 1 True,
      Call_sentiment_analyzer (str ''renewable energy reduces costs. It also creates jobs.''),
      Call_summarizer (str ''renewable energy reduces costs. It also creates jobs.'') 100 10 False]"
  by (simp add: chain_def andthen_def step1_run step2_run step3_run step4_run
      standin_summarizer_interrupt_def standin_def str_append)

subsection \<open>What a chain that ran to its end has done\<close>

lemma chain_returns:
  assumes "chain env ta = (Inr v, tr)"
  shows "\<exists>u tb g tc sent conf td s te q tf a.
           step1 env masked_sentence ta = (Inr u, tb) \<and>
           step2 env u tb = (Inr g, tc) \<and>
           step3 env g tc = (Inr (sent, conf), td) \<and>
           step4 env g td = (Inr s, te) \<and>
           generate_question_with_instruction env s te = (Inr q, tf) \<and>
           step6 env q s tf = (Inr a, tr) \<and>
           v = \<lparr>v_unmasked_sentence = u, v_generated_text = g, v_sentiment = sent,
                 v_confidence = conf, v_summary_text = s, v_question = q, v_answer = a\<rparr>"
  using assms
  by (auto simp: chain_def andthen_def return_def split: prod.splits sum.splits)

lemma step1_returns:
  "step1 env s tr = (Inr u, tr') \<Longrightarrow>
   (\<exists>d ds. mask_filler env s 1 = Inr (d # ds) \<and> u = k_sequence d) \<and>
   stage_calls tr' = stage_calls tr @ [Call_mask_filler s 1]"
  by (auto simp: step1_run stage_calls_append split: option.splits sum.splits list.splits)

lemma step2_returns:
  "step2 env u tr = (Inr g, tr') \<Longrightarrow>
   (\<exists>d ds. text_generator env u 100 1 True = Inr (d # ds) \<and> g = k_generated_text d) \<and>
   stage_calls tr' = stage_calls tr @ [Call_text_generator u 100 1 True]"
  by (auto simp: step2_run stage_calls_append split: option.splits sum.splits list.splits)

lemma step3_returns:
  "step3 env g tr = (Inr (sent, conf), tr') \<Longrightarrow>
   (\<exists>d ds. sentiment_analyzer env g = Inr (d # ds) \<and> sent = k_label d \<and> conf = k_score d) \<and>
   stage_calls tr' = stage_calls tr @ [Call_sentiment_analyzer g]"
  by (auto simp: step3_run stage_calls_append split: option.splits sum.splits list.splits)

lemma step4_returns:
  "step4 env g tr = (Inr s, tr') \<Longrightarrow>
   s = (case summarizer env g 100 10 False of
          Inl e \<Rightarrow> no_summary | Inr [] \<Rightarrow> no_summary | Inr (d # ds) \<Rightarrow> k_summary_text d) \<and>
   stage_calls tr' = stage_calls tr @ [Call_summarizer g 100 10 False]"
  by (auto simp: step4_run stage_calls_append split: option.splits sum.splits list.splits if_splits)

lemma question_returns:
  "generate_question_with_instruction env s tr = (Inr q, tr') \<Longrightarrow>
   (case run_process env command (instruction s) of
      Inl e \<Rightarrow> q = fallback_question
    | Inr p \<Rightarrow>
        \<exists>out err. decode env (stdout p) = Some out \<and> decode env (stderr p) = Some err \<and>
          q = (if returncode p = 0 then strip (translate_newlines out)
               else fallback_question)) \<and>
   stage_calls tr' = stage_calls tr @ [Launch command (instruction s)]"
  by (auto simp: question_run stage_calls_append split: sum.splits option.splits if_splits)

lemma step6_returns:
  "step6 env q c tr = (Inr a, tr') \<Longrightarrow>
   (\<exists>r. qa_pipeline env q c = Inr r \<and> a = k_answer r) \<and>
   stage_calls tr' = stage_calls tr @ [Call_qa_pipeline q c]"
  by (auto simp: step6_run stage_calls_append split: option.splits sum.splits)

text \<open>
  Claim C3, as amended. For every run of the chain that reaches its end, the text one
  stage gives is the text a later stage takes, unchanged: the unmasked sentence of stage 1
  is the input of stage 2; the generated text of stage 2 is the input of stage 3 and also
  of stage 4; the summary of stage 4 is the input of stage 5 and the context of stage 6;
  the question of stage 5 is the question of stage 6. The label and score of stage 3 are
  read and go to no stage. The question of stage 5 is the fallback or the decoded and
  stripped output of the process.
\<close>

theorem stage_handoff:
  assumes "chain env ta = (Inr v, tr)"
  shows "stage_calls tr =
           stage_calls ta @
           [Call_mask_filler masked_sentence 1,
            Call_text_generator (v_unmasked_sentence v) 100 1 True,
            Call_sentiment_analyzer (v_generated_text v),
            Call_summarizer (v_generated_text v) 100 10 False,
            Launch command (instruction (v_summary_text v)),
            Call_qa_pipeline (v_question v) (v_summary_text v)] \<and>
         (\<exists>d ds. mask_filler env masked_sentence 1 = Inr (d # ds) \<and>
            v_unmasked_sentence v = k_sequence d) \<and>
         (\<exists>d ds. text_generator env (v_unmasked_sentence v) 100 1 True = Inr (d # ds) \<and>
            v_generated_text v = k_generated_text d) \<and>
         (\<exists>d ds. sentiment_analyzer env (v_generated_text v) = Inr (d # ds) \<and>
            v_sentiment v = k_label d \<and> v_confidence v = k_score d) \<and>
         v_summary_text v =
           (case summarizer env (v_generated_text v) 100 10 False of
              Inl e \<Rightarrow> no_summary | Inr [] \<Rightarrow> no_summary | Inr (d # ds) \<Rightarrow> k_summary_text d) \<and>
         (case run_process env command (instruction (v_summary_text v)) of
            Inl e \<Rightarrow> v_question v = fallback_question
          | Inr p \<Rightarrow>
              \<exists>out err. decode env (stdout p) = Some out \<and> decode env (stderr p) = Some err \<and>
                v_question v =
                  (if returncode p = 0 then strip (translate_newlines out)
                   else fallback_question)) \<and>
         (\<exists>r. qa_pipeline env (v_question v) (v_summary_text v) = Inr r \<and>
            v_answer v = k_answer r)"
proof -
  from chain_returns[OF assms] obtain u tb g tc sent conf td s te q tf a where
    s1: "step1 env masked_sentence ta = (Inr u, tb)" and
    s2: "step2 env u tb = (Inr g, tc)" and
    s3: "step3 env g tc = (Inr (sent, conf), td)" and
    s4: "step4 env g td = (Inr s, te)" and
    s5: "generate_question_with_instruction env s te = (Inr q, tf)" and
    s6: "step6 env q s tf = (Inr a, tr)" and
    v: "v = \<lparr>v_unmasked_sentence = u, v_generated_text = g, v_sentiment = sent,
              v_confidence = conf, v_summary_text = s, v_question = q, v_answer = a\<rparr>"
    by blast
  note r = step1_returns[OF s1] step2_returns[OF s2] step3_returns[OF s3]
    step4_returns[OF s4, THEN conjunct1, symmetric] step4_returns[OF s4, THEN conjunct2]
    question_returns[OF s5] step6_returns[OF s6]
  show ?thesis
    using r unfolding v by (auto split: sum.splits)
qed

theorem stage_handoff_witness:
  "fst (chain standin []) =
     Inr \<lparr>v_unmasked_sentence = str ''renewable energy reduces costs.'',
          v_generated_text = str ''renewable energy reduces costs. It also creates jobs.'',
          v_sentiment = str ''POSITIVE'', v_confidence = 0.93,
          v_summary_text = str ''Renewable energy cuts costs.'',
          v_question = str ''What caused the policy shift?'',
          v_answer = str ''costs''\<rparr> \<and>
   stage_calls (snd (chain standin [])) =
     [Call_mask_filler masked_sentence 1,
      Call_text_generator (str ''renewable energy reduces costs.'') 100 1 True,
      Call_sentiment_analyzer (str ''renewable energy reduces costs. It also creates jobs.''),
      Call_summarizer (str ''renewable energy reduces costs. It also creates jobs.'') 100 10 False,
      Launch command (instruction (str ''Renewable energy cuts costs.'')),
      Call_qa_pipeline (str ''What caused the policy shift?'')
        (str ''Renewable energy cuts costs.'')]"
proof -
  let ?v = "\<lparr>v_unmasked_sentence = str ''renewable energy reduces costs.'',
          v_generated_text = str ''renewable energy reduces costs. It also creates jobs.'',
          v_sentiment = str ''POSITIVE'', v_confidence = 0.93,
          v_summary_text = str ''Renewable energy cuts costs.'',
          v_question = str ''What caused the policy shift?'',
          v_answer = str ''costs''\<rparr>"
  have f: "fst (chain standin []) = Inr ?v"
    by (simp add: chain_def andthen_def return_def step1_run step2_run step3_run step4_run
        question_run step6_run standin_def str_append strip_example
        ascii_example ascii_empty translate_newlines_example_plain)
  then have c: "chain standin [] = (Inr ?v, snd (chain standin []))"
    by (metis prod.collapse)
  show ?thesis
    using f stage_handoff[OF c, THEN conjunct1] by simp
qed

text \<open>
  Claim C3 as stated fails at the pair of stages 3 and 4: in the scenario of the
  stand-ins the sentiment analyzer returns the label \<^verbatim>\<open>POSITIVE\<close>, and the summarizer is
  called with the generated text of stage 2, not with that label.
\<close>

theorem sentiment_not_summarized_counterexample:
  "sentiment_analyzer standin (str ''renewable energy reduces costs. It also creates jobs.'') =
     Inr [\<lparr>k_label = str ''POSITIVE'', k_score = 0.93\<rparr>] \<and>
   stage_calls (snd (chain standin [])) ! 2 =
     Call_sentiment_analyzer (str ''renewable energy reduces costs. It also creates jobs.'') \<and>
   stage_calls (snd (chain standin [])) ! 3 =
     Call_summarizer (str ''renewable energy reduces costs. It also creates jobs.'') 100 10 False \<and>
   stage_calls (snd (chain standin [])) ! 3 \<noteq> Call_summarizer (str ''POSITIVE'') 100 10 False"
  by (simp add: chain_def andthen_def return_def step1_run step2_run step3_run step4_run
      question_run step6_run standin_def str_append strip_example str_eq_iff
      ascii_example ascii_empty translate_newlines_example_plain)

text \<open>
  Claim C6. Whatever the mask-filling, the text-generation, the sentiment-analysis or the
  question-answering stage raises is caught nowhere: an exception of loading the model of
  the stage, an exception of the model call, and the \<^verbatim>\<open>IndexError\<close> of reading element 0
  of an empty result each end the chain with that exception, whatever its class, and no
  further call is made. The summarization stage catches inside its \<^verbatim>\<open>try\<close> only: loading
  its model is outside and ends the chain as well.
\<close>

theorem other_stage_failures_propagate:
  "(pipeline env (str ''fill-mask'')
      (str ''bert-base-uncased'') None = Some e \<longrightarrow>
    chain env ta =
      (Inl e,
       ta @
       [Load (str ''fill-mask'')
          (str ''bert-base-uncased'')])) \<and>
   (pipeline env (str ''fill-mask'')
      (str ''bert-base-uncased'') None = None \<and>
    mask_filler env masked_sentence 1 = Inl e \<longrightarrow>
    chain env ta =
      (Inl e,
       ta @
       [Load (str ''fill-mask'')
          (str ''bert-base-uncased''),
        Call_mask_filler masked_sentence 1])) \<and>
   (pipeline env (str ''fill-mask'')
      (str ''bert-base-uncased'') None = None \<and>
    mask_filler env masked_sentence 1 = Inr [] \<longrightarrow>
    chain env ta =
      (Inl IndexError,
       ta @
       [Load (str ''fill-mask'')
          (str ''bert-base-uncased''),
        Call_mask_filler masked_sentence 1])) \<and>
   (step1 env masked_sentence ta = (Inr u, tb) \<and>
    pipeline env (str ''text-generation'')
      (str ''gpt2'') None = Some e \<longrightarrow>
    chain env ta =
      (Inl e,
       tb @
       [Load (str ''text-generation'')
          (str ''gpt2'')])) \<and>
   (step1 env masked_sentence ta = (Inr u, tb) \<and>
    pipeline env (str ''text-generation'')
      (str ''gpt2'') None = None \<and>
    text_generator env u 100 1 True = Inl e \<longrightarrow>
    chain env ta =
      (Inl e,
       tb @
       [Load (str ''text-generation'')
          (str ''gpt2''),
        Call_text_generator u 100 1 True])) \<and>
   (step1 env masked_sentence ta = (Inr u, tb) \<and>
    pipeline env (str ''text-generation'')
      (str ''gpt2'') None = None \<and>
    text_generator env u 100 1 True = Inr [] \<longrightarrow>
    chain env ta =
      (Inl IndexError,
       tb @
       [Load (str ''text-generation'')
          (str ''gpt2''),
        Call_text_generator u 100 1 True])) \<and>
   (step1 env masked_sentence ta = (Inr u, tb) \<and>
    step2 env u tb = (Inr g, tc) \<and>
    pipeline env (str ''sentiment-analysis'')
      (str ''distilbert/distilbert-base-uncased-finetuned-sst-2-english'') None = Some e \<longrightarrow>
    chain env ta =
      (Inl e,
       tc @
       [Load (str ''sentiment-analysis'')
          (str ''distilbert/distilbert-base-uncased-finetuned-sst-2-english'')])) \<and>
   (step1 env masked_sentence ta = (Inr u, tb) \<and>
    step2 env u tb = (Inr g, tc) \<and>
    pipeline env (str ''sentiment-analysis'')
      (str ''distilbert/distilbert-base-uncased-finetuned-sst-2-english'') None = None \<and>
    sentiment_analyzer env g = Inl e \<longrightarrow>
    chain env ta =
      (Inl e,
       tc @
       [Load (str ''sentiment-analysis'')
          (str ''distilbert/distilbert-base-uncased-finetuned-sst-2-english''),
        Call_sentiment_analyzer g])) \<and>
   (step1 env masked_sentence ta = (Inr u, tb) \<and>
    step2 env u tb = (Inr g, tc) \<and>
    pipeline env (str ''sentiment-analysis'')
      (str ''distilbert/distilbert-base-uncased-finetuned-sst-2-english'') None = None \<and>
    sentiment_analyzer env g = Inr [] \<longrightarrow>
    chain env ta =
      (Inl IndexError,
       tc @
       [Load (str ''sentiment-analysis'')
          (str ''distilbert/distilbert-base-uncased-finetuned-sst-2-english''),
        Call_sentiment_analyzer g])) \<and>
   (step1 env masked_sentence ta = (Inr u, tb) \<and>
    step2 env u tb = (Inr g, tc) \<and>
    step3 env g tc = (Inr (sent, conf), td) \<and>
    pipeline env (str ''summarization'')
      (str ''facebook/bart-large-cnn'') (Some (- 1)) = Some e \<longrightarrow>
    chain env ta =
      (Inl e,
       td @
       [Load (str ''summarization'')
          (str ''facebook/bart-large-cnn'')])) \<and>
   (step1 env masked_sentence ta = (Inr u, tb) \<and>
    step2 env u tb = (Inr g, tc) \<and>
    step3 env g tc = (Inr (sent, conf), td) \<and>
    step4 env g td = (Inr s, te) \<and>
    generate_question_with_instruction env s te = (Inr q, tf) \<and>
    pipeline env (str ''question-answering'')
      (str ''google-bert/bert-large-uncased-whole-word-masking-finetuned-squad'') None = Some e \<longrightarrow>
    chain env ta =
      (Inl e,
       tf @
       [Load (str ''question-answering'')
          (str ''google-bert/bert-large-uncased-whole-word-masking-finetuned-squad'')])) \<and>
   (step1 env masked_sentence ta = (Inr u, tb) \<and>
    step2 env u tb = (Inr g, tc) \<and>
    step3 env g tc = (Inr (sent, conf), td) \<and>
    step4 env g td = (Inr s, te) \<and>
    generate_question_with_instruction env s te = (Inr q, tf) \<and>
    pipeline env (str ''question-answering'')
      (str ''google-bert/bert-large-uncased-whole-word-masking-finetuned-squad'') None = None \<and>
    qa_pipeline env q s = Inl e \<longrightarrow>
    chain env ta =
      (Inl e,
       tf @
       [Load (str ''question-answering'')
          (str ''google-bert/bert-large-uncased-whole-word-masking-finetuned-squad''),
        Call_qa_pipeline q s]))"
  by (simp add: chain_def andthen_def step1_run step2_run step3_run step4_run step6_run)

lemmas standin_error_defs = standin_load_error_def standin_mask_filler_error_def
  standin_text_generator_error_def standin_sentiment_error_def standin_qa_error_def
  standin_no_candidate_def standin_no_generation_def standin_no_classification_def
  standin_def

theorem other_stage_failures_propagate_witness:
  "fst (chain (standin_load_error (str ''fill-mask'')) []) =
     Inl (OtherException (str ''OSError'')) \<and>
   stage_calls (snd (chain (standin_load_error (str ''fill-mask'')) [])) =
     [] \<and>
   fst (chain standin_mask_filler_error []) =
     Inl (OtherException (str ''RuntimeError'')) \<and>
   stage_calls (snd (chain standin_mask_filler_error [])) =
     [Call_mask_filler masked_sentence 1] \<and>
   fst (chain standin_no_candidate []) =
     Inl (IndexError) \<and>
   stage_calls (snd (chain standin_no_candidate [])) =
     [Call_mask_filler masked_sentence 1] \<and>
   fst (chain (standin_load_error (str ''text-generation'')) []) =
     Inl (OtherException (str ''OSError'')) \<and>
   stage_calls (snd (chain (standin_load_error (str ''text-generation'')) [])) =
     [Call_mask_filler masked_sentence 1] \<and>
   fst (chain standin_text_generator_error []) =
     Inl (OtherException (str ''RuntimeError'')) \<and>
   stage_calls (snd (chain standin_text_generator_error [])) =
     [Call_mask_filler masked_sentence 1,
      Call_text_generator (str ''renewable energy reduces costs.'') 100 1 True] \<and>
   fst (chain standin_no_generation []) =
     Inl (IndexError) \<and>
   stage_calls (snd (chain standin_no_generation [])) =
     [Call_mask_filler masked_sentence 1,
      Call_text_generator (str ''renewable energy reduces costs.'') 100 1 True] \<and>
   fst (chain (standin_load_error (str ''sentiment-analysis'')) []) =
     Inl (OtherException (str ''OSError'')) \<and>
   stage_calls (snd (chain (standin_load_error (str ''sentiment-analysis'')) [])) =
     [Call_mask_filler masked_sentence 1,
      Call_text_generator (str ''renewable energy reduces costs.'') 100 1 True] \<and>
   fst (chain standin_sentiment_error []) =
     Inl (OtherException (str ''RuntimeError'')) \<and>
   stage_calls (snd (chain standin_sentiment_error [])) =
     [Call_mask_filler masked_sentence 1,
      Call_text_generator (str ''renewable energy reduces costs.'') 100 1 True,
      Call_sentiment_analyzer (str ''renewable energy reduces costs. It also creates jobs.'')] \<and>
   fst (chain standin_no_classification []) =
     Inl (IndexError) \<and>
   stage_calls (snd (chain standin_no_classification [])) =
     [Call_mask_filler masked_sentence 1,
      Call_text_generator (str ''renewable energy reduces costs.'') 100 1 True,
      Call_sentiment_analyzer (str ''renewable energy reduces costs. It also creates jobs.'')] \<and>
   fst (chain (standin_load_error (str ''summarization'')) []) =
     Inl (OtherException (str ''OSError'')) \<and>
   stage_calls (snd (chain (standin_load_error (str ''summarization'')) [])) =
     [Call_mask_filler masked_sentence 1,
      Call_text_generator (str ''renewable energy reduces costs.'') 100 1 True,
      Call_sentiment_analyzer (str ''renewable energy reduces costs. It also creates jobs.'')] \<and>
   fst (chain (standin_load_error (str ''question-answering'')) []) =
     Inl (OtherException (str ''OSError'')) \<and>
   stage_calls (snd (chain (standin_load_error (str ''question-answering'')) [])) =
     [Call_mask_filler masked_sentence 1,
      Call_text_generator (str ''renewable energy reduces costs.'') 100 1 True,
      Call_sentiment_analyzer (str ''renewable energy reduces costs. It also creates jobs.''),
      Call_summarizer (str ''renewable energy reduces costs. It also creates jobs.'') 100 10 False,
      Launch command (instruction (str ''Renewable energy cuts costs.''))] \<and>
   fst (chain standin_qa_error []) =
     Inl (OtherException (str ''RuntimeError'')) \<and>
   stage_calls (snd (chain standin_qa_error [])) =
     [Call_mask_filler masked_sentence 1,
      Call_text_generator (str ''renewable energy reduces costs.'') 100 1 True,
      Call_sentiment_analyzer (str ''renewable energy reduces costs. It also creates jobs.''),
      Call_summarizer (str ''renewable energy reduces costs. It also creates jobs.'') 100 10 False,
      Launch command (instruction (str ''Renewable energy cuts costs.'')),
      Call_qa_pipeline (str ''What caused the policy shift?'') (str ''Renewable energy cuts costs.'')]"
proof -
  let ?u = "str ''renewable energy reduces costs.''"
  let ?g = "str ''renewable energy reduces costs. It also creates jobs.''"
  let ?s = "str ''Renewable energy cuts costs.''"
  let ?q = "str ''What caused the policy shift?''"
  let ?tb = "[Load (str ''fill-mask'') (str ''bert-base-uncased''),
              Call_mask_filler masked_sentence 1]"
  let ?tc = "?tb @ [Load (str ''text-generation'') (str ''gpt2''),
              Call_text_generator (str ''renewable energy reduces costs.'') 100 1 True]"
  let ?td = "?tc @ [Load (str ''sentiment-analysis'') (str ''distilbert/distilbert-base-uncased-finetuned-sst-2-english''),
              Call_sentiment_analyzer (str ''renewable energy reduces costs. It also creates jobs.'')]"
  let ?te = "?td @ [Load (str ''summarization'') (str ''facebook/bart-large-cnn''),
              Call_summarizer (str ''renewable energy reduces costs. It also creates jobs.'') 100 10 False]"
  let ?tf = "?te @ [Launch command (instruction (str ''Renewable energy cuts costs.'')), Exit 0]"
  note t = other_stage_failures_propagate[where ta = "[]" and u = ?u and tb = ?tb
      and g = ?g and tc = ?tc and sent = "str ''POSITIVE''" and conf = "0.93" and td = ?td
      and s = ?s and te = ?te and q = ?q and tf = ?tf]
  note ds = standin_error_defs step1_run step2_run step3_run step4_run question_run
    str_append str_eq_iff strip_example ascii_example ascii_empty
    translate_newlines_example_plain
  have a1: "chain (standin_load_error (str ''fill-mask'')) [] =
      (Inl (OtherException (str ''OSError'')),
       [Load (str ''fill-mask'') (str ''bert-base-uncased'')])"
    using t[where env = "standin_load_error (str ''fill-mask'')" and e = "OtherException (str ''OSError'')"]
    by (simp add: ds)
  have a2: "chain standin_mask_filler_error [] =
      (Inl (OtherException (str ''RuntimeError'')),
       [Load (str ''fill-mask'') (str ''bert-base-uncased''),
        Call_mask_filler masked_sentence 1])"
    using t[where env = "standin_mask_filler_error" and e = "OtherException (str ''RuntimeError'')"]
    by (simp add: ds)
  have a3: "chain standin_no_candidate [] =
      (Inl (IndexError),
       [Load (str ''fill-mask'') (str ''bert-base-uncased''),
        Call_mask_filler masked_sentence 1])"
    using t[where env = "standin_no_candidate" and e = "OtherException (str ''RuntimeError'')"]
    by (simp add: ds)
  have a4: "chain (standin_load_error (str ''text-generation'')) [] =
      (Inl (OtherException (str ''OSError'')),
       [Load (str ''fill-mask'') (str ''bert-base-uncased''),
        Call_mask_filler masked_sentence 1,
        Load (str ''text-generation'') (str ''gpt2'')])"
    using t[where env = "standin_load_error (str ''text-generation'')" and e = "OtherException (str ''OSError'')"]
    by (simp add: ds)
  have a5: "chain standin_text_generator_error [] =
      (Inl (OtherException (str ''RuntimeError'')),
       [Load (str ''fill-mask'') (str ''bert-base-uncased''),
        Call_mask_filler masked_sentence 1,
        Load (str ''text-generation'') (str ''gpt2''),
        Call_text_generator (str ''renewable energy reduces costs.'') 100 1 True])"
    using t[where env = "standin_text_generator_error" and e = "OtherException (str ''RuntimeError'')"]
    by (simp add: ds)
  have a6: "chain standin_no_generation [] =
      (Inl (IndexError),
       [Load (str ''fill-mask'') (str ''bert-base-uncased''),
        Call_mask_filler masked_sentence 1,
        Load (str ''text-generation'') (str ''gpt2''),
        Call_text_generator (str ''renewable energy reduces costs.'') 100 1 True])"
    using t[where env = "standin_no_generation" and e = "OtherException (str ''RuntimeError'')"]
    by (simp add: ds)
  have a7: "chain (standin_load_error (str ''sentiment-analysis'')) [] =
      (Inl (OtherException (str ''OSError'')),
       [Load (str ''fill-mask'') (str ''bert-base-uncased''),
        Call_mask_filler masked_sentence 1,
        Load (str ''text-generation'') (str ''gpt2''),
        Call_text_generator (str ''renewable energy reduces costs.'') 100 1 True,
        Load (str ''sentiment-analysis'') (str ''distilbert/distilbert-base-uncased-finetuned-sst-2-english'')])"
    using t[where env = "standin_load_error (str ''sentiment-analysis'')" and e = "OtherException (str ''OSError'')"]
    by (simp add: ds)
  have a8: "chain standin_sentiment_error [] =
      (Inl (OtherException (str ''RuntimeError'')),
       [Load (str ''fill-mask'') (str ''bert-base-uncased''),
        Call_mask_filler masked_sentence 1,
        Load (str ''text-generation'') (str ''gpt2''),
        Call_text_generator (str ''renewable energy reduces costs.'') 100 1 True,
        Load (str ''sentiment-analysis'') (str ''distilbert/distilbert-base-uncased-finetuned-sst-2-english''),
        Call_sentiment_analyzer (str ''renewable energy reduces costs. It also creates jobs.'')])"
    using t[where env = "standin_sentiment_error" and e = "OtherException (str ''RuntimeError'')"]
    by (simp add: ds)
  have a9: "chain standin_no_classification [] =
      (Inl (IndexError),
       [Load (str ''fill-mask'') (str ''bert-base-uncased''),
        Call_mask_filler masked_sentence 1,
        Load (str ''text-generation'') (str ''gpt2''),
        Call_text_generator (str ''renewable energy reduces costs.'') 100 1 True,
        Load (str ''sentiment-analysis'') (str ''distilbert/distilbert-base-uncased-finetuned-sst-2-english''),
        Call_sentiment_analyzer (str ''renewable energy reduces costs. It also creates jobs.'')])"
    using t[where env = "standin_no_classification" and e = "OtherException (str ''RuntimeError'')"]
    by (simp add: ds)
  have a10: "chain (standin_load_error (str ''summarization'')) [] =
      (Inl (OtherException (str ''OSError'')),
       [Load (str ''fill-mask'') (str ''bert-base-uncased''),
        Call_mask_filler masked_sentence 1,
        Load (str ''text-generation'') (str ''gpt2''),
        Call_text_generator (str ''renewable energy reduces costs.'') 100 1 True,
        Load (str ''sentiment-analysis'') (str ''distilbert/distilbert-base-uncased-finetuned-sst-2-english''),
        Call_sentiment_analyzer (str ''renewable energy reduces costs. It also creates jobs.''),
        Load (str ''summarization'') (str ''facebook/bart-large-cnn'')])"
    using t[where env = "standin_load_error (str ''summarization'')" and e = "OtherException (str ''OSError'')"]
    by (simp add: ds)
  have a11: "chain (standin_load_error (str ''question-answering'')) [] =
      (Inl (OtherException (str ''OSError'')),
       [Load (str ''fill-mask'') (str ''bert-base-uncased''),
        Call_mask_filler masked_sentence 1,
        Load (str ''text-generation'') (str ''gpt2''),
        Call_text_generator (str ''renewable energy reduces costs.'') 100 1 True,
        Load (str ''sentiment-analysis'') (str ''distilbert/distilbert-base-uncased-finetuned-sst-2-english''),
        Call_sentiment_analyzer (str ''renewable energy reduces costs. It also creates jobs.''),
        Load (str ''summarization'') (str ''facebook/bart-large-cnn''),
        Call_summarizer (str ''renewable energy reduces costs. It also creates jobs.'') 100 10 False,
        Launch command (instruction (str ''Renewable energy cuts costs.'')),
        Exit 0,
        Load (str ''question-answering'') (str ''google-bert/bert-large-uncased-whole-word-masking-finetuned-squad'')])"
    using t[where env = "standin_load_error (str ''question-answering'')" and e = "OtherException (str ''OSError'')"]
    by (simp add: ds)
  have a12: "chain standin_qa_error [] =
      (Inl (OtherException (str ''RuntimeError'')),
       [Load (str ''fill-mask'') (str ''bert-base-uncased''),
        Call_mask_filler masked_sentence 1,
        Load (str ''text-generation'') (str ''gpt2''),
        Call_text_generator (str ''renewable energy reduces costs.'') 100 1 True,
        Load (str ''sentiment-analysis'') (str ''distilbert/distilbert-base-uncased-finetuned-sst-2-english''),
        Call_sentiment_analyzer (str ''renewable energy reduces costs. It also creates jobs.''),
        Load (str ''summarization'') (str ''facebook/bart-large-cnn''),
        Call_summarizer (str ''renewable energy reduces costs. It also creates jobs.'') 100 10 False,
        Launch command (instruction (str ''Renewable energy cuts costs.'')),
        Exit 0,
        Load (str ''question-answering'') (str ''google-bert/bert-large-uncased-whole-word-masking-finetuned-squad''),
        Call_qa_pipeline (str ''What caused the policy shift?'') (str ''Renewable energy cuts costs.'')])"
    using t[where env = "standin_qa_error" and e = "OtherException (str ''RuntimeError'')"]
    by (simp add: ds)
  show ?thesis
    unfolding a1 a2 a3 a4 a5 a6 a7 a8 a9 a10 a11 a12 by simp
qed

subsection \<open>Only first elements are read\<close>

lemma first_only_fields:
  "pipeline (first_only env) task model device = pipeline env task model device"
  "run_process (first_only env) cmd i = run_process env cmd i"
  "decode (first_only env) bytes = decode env bytes"
  "qa_pipeline (first_only env) q c = qa_pipeline env q c"
  "mask_filler (first_only env) s k = map_sum id (take 1) (mask_filler env s k)"
  "text_generator (first_only env) s m n t = map_sum id (take 1) (text_generator env s m n t)"
  "sentiment_analyzer (first_only env) s = map_sum id (take 1) (sentiment_analyzer env s)"
  "summarizer (first_only env) s m n' b = map_sum id (take 1) (summarizer env s m n' b)"
  by (simp_all add: first_only_def)

lemma step1_first_only: "step1 (first_only env) s = step1 env s"
  by (rule ext) (simp add: step1_run first_only_fields split: option.splits sum.splits list.splits)

lemma step2_first_only: "step2 (first_only env) u = step2 env u"
  by (rule ext) (simp add: step2_run first_only_fields split: option.splits sum.splits list.splits)

lemma step3_first_only: "step3 (first_only env) g = step3 env g"
  by (rule ext) (simp add: step3_run first_only_fields split: option.splits sum.splits list.splits)

lemma step4_first_only: "step4 (first_only env) g = step4 env g"
  by (rule ext) (simp add: step4_run first_only_fields split: option.splits sum.splits list.splits)

lemma question_first_only:
  "generate_question_with_instruction (first_only env) s =
   generate_question_with_instruction env s"
  by (rule ext) (simp add: question_run first_only_fields split: sum.splits option.splits)

lemma step6_first_only: "step6 (first_only env) q c = step6 env q c"
  by (rule ext) (simp add: step6_run first_only_fields split: option.splits)

text \<open>
  Claim C10. The chain reads the element at index 0 of each result list and no other:
  running it in an environment whose result lists are cut after their first element
  changes nothing. When a model returns a list that is not empty, index 0 is in bounds,
  and the stage gives what it read from that first element.
\<close>

theorem only_first_element_read:
  "chain (first_only env) tr = chain env tr \<and>
   (xs \<noteq> [] \<longrightarrow> getitem xs 0 tr = (Inr (hd xs), tr)) \<and>
   (pipeline env (str ''fill-mask'') (str ''bert-base-uncased'') None = None \<and>
    mask_filler env sentence 1 = Inr fill_results \<and> fill_results \<noteq> [] \<longrightarrow>
    fst (step1 env sentence tr) = Inr (k_sequence (hd fill_results))) \<and>
   (pipeline env (str ''text-generation'') (str ''gpt2'') None = None \<and>
    text_generator env u 100 1 True = Inr generated_texts \<and> generated_texts \<noteq> [] \<longrightarrow>
    fst (step2 env u tr) = Inr (k_generated_text (hd generated_texts))) \<and>
   (pipeline env (str ''sentiment-analysis'')
      (str ''distilbert/distilbert-base-uncased-finetuned-sst-2-english'') None = None \<and>
    sentiment_analyzer env g = Inr sentiment_results \<and> sentiment_results \<noteq> [] \<longrightarrow>
    fst (step3 env g tr) = Inr (k_label (hd sentiment_results), k_score (hd sentiment_results))) \<and>
   (pipeline env (str ''summarization'') (str ''facebook/bart-large-cnn'') (Some (- 1)) = None \<and>
    summarizer env g 100 10 False = Inr summary \<and> summary \<noteq> [] \<longrightarrow>
    fst (step4 env g tr) = Inr (k_summary_text (hd summary)))"
proof (intro conjI impI)
  show "chain (first_only env) tr = chain env tr"
    by (simp add: chain_def step1_first_only step2_first_only step3_first_only
        step4_first_only question_first_only step6_first_only)
next
  assume "xs \<noteq> []"
  then show "getitem xs 0 tr = (Inr (hd xs), tr)"
    by (cases xs) (simp_all add: getitem_def)
next
  assume "pipeline env (str ''fill-mask'') (str ''bert-base-uncased'') None = None \<and>
    mask_filler env sentence 1 = Inr fill_results \<and> fill_results \<noteq> []"
  then show "fst (step1 env sentence tr) = Inr (k_sequence (hd fill_results))"
    by (cases fill_results) (simp_all add: step1_run)
next
  assume "pipeline env (str ''text-generation'') (str ''gpt2'') None = None \<and>
    text_generator env u 100 1 True = Inr generated_texts \<and> generated_texts \<noteq> []"
  then show "fst (step2 env u tr) = Inr (k_generated_text (hd generated_texts))"
    by (cases generated_texts) (simp_all add: step2_run)
next
  assume "pipeline env (str ''sentiment-analysis'')
      (str ''distilbert/distilbert-base-uncased-finetuned-sst-2-english'') None = None \<and>
    sentiment_analyzer env g = Inr sentiment_results \<and> sentiment_results \<noteq> []"
  then show "fst (step3 env g tr) =
      Inr (k_label (hd sentiment_results), k_score (hd sentiment_results))"
    by (cases sentiment_results) (simp_all add: step3_run)
next
  assume "pipeline env (str ''summarization'') (str ''facebook/bart-large-cnn'') (Some (- 1)) = None \<and>
    summarizer env g 100 10 False = Inr summary \<and> summary \<noteq> []"
  then show "fst (step4 env g tr) = Inr (k_summary_text (hd summary))"
    by (cases summary) (simp_all add: step4_run)
qed

theorem only_first_element_read_witness:
  "mask_filler standin_two_candidates masked_sentence 1 =
     Inr [\<lparr>k_sequence = str ''renewable energy reduces costs.''\<rparr>,
          \<lparr>k_sequence = str ''renewable energy reduces emissions.''\<rparr>] \<and>
   getitem [\<lparr>k_sequence = str ''renewable energy reduces costs.''\<rparr>,
            \<lparr>k_sequence = str ''renewable energy reduces emissions.''\<rparr>] 0 [] =
     (Inr \<lparr>k_sequence = str ''renewable energy reduces costs.''\<rparr>, []) \<and>
   fst (step1 standin_two_candidates masked_sentence []) =
     Inr (str ''renewable energy reduces costs.'') \<and>
   fst (step2 standin_two_candidates (str ''renewable energy reduces costs.'') []) =
     Inr (str ''renewable energy reduces costs. It also creates jobs.'') \<and>
   fst (step3 standin_two_candidates
          (str ''renewable energy reduces costs. It also creates jobs.'') []) =
     Inr (str ''POSITIVE'', 0.93) \<and>
   fst (step4 standin_two_candidates
          (str ''renewable energy reduces costs. It also creates jobs.'') []) =
     Inr (str ''Renewable energy cuts costs.'') \<and>
   chain (first_only standin_two_candidates) [] = chain standin_two_candidates []"
proof -
  let ?u = "str ''renewable energy reduces costs.''"
  let ?g = "str ''renewable energy reduces costs. It also creates jobs.''"
  let ?cs = "[\<lparr>k_sequence = ?u\<rparr>, \<lparr>k_sequence = str ''renewable energy reduces emissions.''\<rparr>]"
  note t = only_first_element_read[where env = standin_two_candidates and tr = "[]"
      and xs = ?cs and sentence = masked_sentence and fill_results = ?cs
      and u = ?u and generated_texts = "[\<lparr>k_generated_text = ?g\<rparr>]"
      and g = ?g and sentiment_results = "[\<lparr>k_label = str ''POSITIVE'', k_score = 0.93\<rparr>]"
      and summary = "[\<lparr>k_summary_text = str ''Renewable energy cuts costs.''\<rparr>]"]
  show ?thesis
    using t by (simp add: standin_two_candidates_def standin_def str_append)
qed

end
